theory Spec2Isabelle
  imports Complex_Main "HOL-Library.Sublist" "HOL-Library.Multiset"
begin

section \<open>Python values used by the orchestrators\<close>

text \<open>
  The development covers the two orchestration modules of the repository:
  \<^verbatim>\<open>backend-enhanced/ai_orchestrator.py\<close> (routing table, \<^verbatim>\<open>process_task\<close>,
  \<^verbatim>\<open>_call_model\<close>, \<^verbatim>\<open>_parse_response\<close>, \<^verbatim>\<open>_calculate_confidence\<close>) and
  \<^verbatim>\<open>backend-enhanced/ai_multi_model.py\<close> (model registry, \<^verbatim>\<open>_select_models\<close>,
  \<^verbatim>\<open>generate\<close>, the usage counters and \<^verbatim>\<open>get_stats\<close>).

  Python \<^verbatim>\<open>str\<close> is modelled as \<^typ>\<open>string\<close>, one \<^typ>\<open>char\<close> per code point
  (code points 0 to 255). Python \<^verbatim>\<open>int\<close> is \<^typ>\<open>int\<close>. A Python \<^verbatim>\<open>float\<close> that
  comes from provider text is a value of the type \<open>pyfloat\<close> below, with its infinities
  and NaN; the prices and costs of \<^verbatim>\<open>ai_multi_model.py\<close> are finite and are modelled as
  \<^typ>\<open>real\<close>, without rounding.
\<close>

subsection \<open>Exceptions\<close>

text \<open>
  \<open>ProviderError msg\<close> stands for any exception raised inside a provider SDK call, with
  \<open>msg\<close> the text \<^verbatim>\<open>str(e)\<close>. The others are the built-in exceptions that the modelled
  code and the library functions it calls can raise. \<^verbatim>\<open>JSONDecodeError\<close> is the only one
  that \<^verbatim>\<open>except json.JSONDecodeError\<close> catches.
\<close>

datatype py_exc =
    ProviderError string
  | TypeError
  | ValueError
  | AttributeError
  | IndexError
  | KeyError
  | OverflowError
  | RecursionError
  | JSONDecodeError

subsection \<open>Floats\<close>

text \<open>A float is finite, an infinity or NaN. \<open>py_gt a b\<close> is \<^verbatim>\<open>a > b\<close>: every comparison
  with NaN is false.\<close>

datatype pyfloat = Fin real | PosInf | NegInf | NaN

fun py_gt :: "pyfloat \<Rightarrow> pyfloat \<Rightarrow> bool" where
  "py_gt (Fin a) (Fin b) = (b < a)"
| "py_gt (Fin a) NegInf = True"
| "py_gt (Fin a) PosInf = False"
| "py_gt PosInf (Fin b) = True"
| "py_gt PosInf NegInf = True"
| "py_gt PosInf PosInf = False"
| "py_gt NegInf b = False"
| "py_gt NaN b = False"
| "py_gt (Fin a) NaN = False"
| "py_gt PosInf NaN = False"

text \<open>
  \<^verbatim>\<open>float(i)\<close> for an integer \<open>i\<close>: the nearest number with 53 significant bits, a tie
  going to the even one, and \<^verbatim>\<open>OverflowError\<close> when that number reaches \<open>2 ^ 1024\<close>.
\<close>

fun bit_length :: "nat \<Rightarrow> nat" where
  "bit_length n = (if n = 0 then 0 else Suc (bit_length (n div 2)))"

declare bit_length.simps [simp del]

definition round_to_53 :: "nat \<Rightarrow> nat" where
  "round_to_53 n =
     (let b = bit_length n
      in if b \<le> 53 then n
         else (let sh = b - 53; q = n div 2 ^ sh; r = n mod 2 ^ sh; half = 2 ^ (sh - 1)
               in (if half < r \<or> (r = half \<and> odd q) then q + 1 else q) * 2 ^ sh))"

definition float_of_int :: "int \<Rightarrow> py_exc + pyfloat" where
  "float_of_int i =
     (let m = round_to_53 (nat \<bar>i\<bar>)
      in if 2 ^ 1024 \<le> m then Inl OverflowError
         else Inr (Fin (if i < 0 then - real m else real m)))"

subsection \<open>String operations\<close>

text \<open>\<^verbatim>\<open>s.find(sub, start)\<close>: the lowest index at or after \<open>start\<close> where \<open>sub\<close> occurs,
  else \<open>-1\<close>. \<open>find_aux sub s i\<close> scans \<open>s\<close>, whose first character has index \<open>i\<close>.\<close>

fun find_aux :: "'a list \<Rightarrow> 'a list \<Rightarrow> nat \<Rightarrow> int" where
  "find_aux sub [] i = (if sub = [] then int i else - 1)"
| "find_aux sub (c # cs) i =
     (if prefix sub (c # cs) then int i else find_aux sub cs (Suc i))"

definition py_find :: "'a list \<Rightarrow> 'a list \<Rightarrow> int \<Rightarrow> int" where
  "py_find s sub start =
     (let n = int (length s);
          st = (if start < 0 then max 0 (start + n) else start)
      in if st > n then - 1 else find_aux sub (drop (nat st) s) (nat st))"

text \<open>\<^verbatim>\<open>sub in s\<close>\<close>

definition py_in :: "'a list \<Rightarrow> 'a list \<Rightarrow> bool" where
  "py_in sub s = (py_find s sub 0 \<noteq> - 1)"

text \<open>\<^verbatim>\<open>s[a:b]\<close>: a negative bound counts from the end; both bounds are clamped to
  the string.\<close>

definition py_slice :: "'a list \<Rightarrow> int \<Rightarrow> int \<Rightarrow> 'a list" where
  "py_slice s a b =
     (let n = int (length s);
          a' = (if a < 0 then max 0 (a + n) else min a n);
          b' = (if b < 0 then max 0 (b + n) else min b n)
      in take (nat (b' - a')) (drop (nat a') s))"

text \<open>\<^verbatim>\<open>str.isspace\<close> on one character, for code points below 256: the ASCII
  whitespace \<open>9..13\<close> and \<open>32\<close>, the separators \<open>28..31\<close>, NEL and NBSP.\<close>

definition is_space :: "char \<Rightarrow> bool" where
  "is_space c =
     (let k = (of_char c :: nat)
      in (9 \<le> k \<and> k \<le> 13) \<or> (28 \<le> k \<and> k \<le> 32) \<or> k = 133 \<or> k = 160)"

text \<open>\<^verbatim>\<open>s.strip()\<close>\<close>

definition py_strip :: "string \<Rightarrow> string" where
  "py_strip s = rev (dropWhile is_space (rev (dropWhile is_space s)))"

subsection \<open>Decoded JSON documents\<close>

text \<open>
  What \<^verbatim>\<open>json.loads\<close> returns: \<^verbatim>\<open>None\<close>, \<^verbatim>\<open>bool\<close>, \<^verbatim>\<open>int\<close>, \<^verbatim>\<open>float\<close>, \<^verbatim>\<open>str\<close>,
  \<^verbatim>\<open>list\<close> or \<^verbatim>\<open>dict\<close>. A dictionary is an association list read with \<^const>\<open>map_of\<close>.
\<close>

datatype json =
    JNull
  | JBool bool
  | JInt int
  | JFloat pyfloat
  | JString string
  | JArray "json list"
  | JObject "(string \<times> json) list"

text \<open>
  Two standard library functions are parameters of the model. \<open>json_loads\<close> is
  \<^verbatim>\<open>json.loads\<close>: it returns the decoded document or raises, \<^verbatim>\<open>JSONDecodeError\<close> on text
  that is not JSON, and also \<^verbatim>\<open>ValueError\<close> on an integer of more than 4300 digits and
  \<^verbatim>\<open>RecursionError\<close> on a document nested too deeply. \<open>float_of_str\<close> is \<^verbatim>\<open>float\<close> on a
  string (\<open>None\<close> when it raises \<^verbatim>\<open>ValueError\<close>).
\<close>

record pylib =
  json_loads :: "string \<Rightarrow> py_exc + json"
  float_of_str :: "string \<Rightarrow> pyfloat option"

text \<open>\<^verbatim>\<open>float(v)\<close>\<close>

fun py_float :: "pylib \<Rightarrow> json \<Rightarrow> py_exc + pyfloat" where
  "py_float lib (JInt i) = float_of_int i"
| "py_float lib (JFloat r) = Inr r"
| "py_float lib (JBool b) = Inr (Fin (if b then 1 else 0))"
| "py_float lib (JString s) =
     (case float_of_str lib s of None \<Rightarrow> Inl ValueError | Some r \<Rightarrow> Inr r)"
| "py_float lib JNull = Inl TypeError"
| "py_float lib (JArray xs) = Inl TypeError"
| "py_float lib (JObject kvs) = Inl TypeError"

text \<open>Truth value of a decoded document, as \<^verbatim>\<open>if v:\<close> tests it.\<close>

fun py_truthy :: "json \<Rightarrow> bool" where
  "py_truthy JNull = False"
| "py_truthy (JBool b) = b"
| "py_truthy (JInt i) = (i \<noteq> 0)"
| "py_truthy (JFloat r) = (r \<noteq> Fin 0)"
| "py_truthy (JString s) = (s \<noteq> [])"
| "py_truthy (JArray xs) = (xs \<noteq> [])"
| "py_truthy (JObject kvs) = (kvs \<noteq> [])"

text \<open>\<^verbatim>\<open>key in v\<close>: key test on a dictionary, element test on a list, substring test
  on a string, \<^verbatim>\<open>TypeError\<close> on anything else.\<close>

fun py_contains :: "string \<Rightarrow> json \<Rightarrow> py_exc + bool" where
  "py_contains k (JObject kvs) = Inr (map_of kvs k \<noteq> None)"
| "py_contains k (JArray xs) = Inr (JString k \<in> set xs)"
| "py_contains k (JString s) = Inr (py_in k s)"
| "py_contains k JNull = Inl TypeError"
| "py_contains k (JBool b) = Inl TypeError"
| "py_contains k (JInt i) = Inl TypeError"
| "py_contains k (JFloat r) = Inl TypeError"

text \<open>\<^verbatim>\<open>v[key]\<close> with a string key.\<close>

fun py_getitem :: "json \<Rightarrow> string \<Rightarrow> py_exc + json" where
  "py_getitem (JObject kvs) k =
     (case map_of kvs k of None \<Rightarrow> Inl KeyError | Some x \<Rightarrow> Inr x)"
| "py_getitem v k = Inl TypeError"

section \<open>Response interpretation (ai_orchestrator.py)\<close>

text \<open>The text handed to \<^verbatim>\<open>json.loads\<close> by \<^verbatim>\<open>_parse_response\<close>.\<close>

definition json_str :: "string \<Rightarrow> string" where
  "json_str response_text =
     (if py_in ''```json'' response_text then
        (let json_start = py_find response_text ''```json'' 0 + 7;
             json_end = py_find response_text ''```'' json_start
         in py_strip (py_slice response_text json_start json_end))
      else if py_in ''```'' response_text then
        (let json_start = py_find response_text ''```'' 0 + 3;
             json_end = py_find response_text ''```'' json_start
         in py_strip (py_slice response_text json_start json_end))
      else py_strip response_text)"

text \<open>\<^verbatim>\<open>_parse_response\<close>. The task type is only logged and is left out. An exception
  of the decoder other than \<^verbatim>\<open>JSONDecodeError\<close> is not caught.\<close>

definition parse_response :: "pylib \<Rightarrow> string \<Rightarrow> py_exc + json" where
  "parse_response lib response_text =
     (case json_loads lib (json_str response_text) of
        Inr v \<Rightarrow> Inr v
      | Inl e \<Rightarrow>
          (if e = JSONDecodeError
           then Inr (JObject [(''raw_response'', JString response_text),
                              (''parsed'', JBool False)])
           else Inl e))"

text \<open>The tail of \<^verbatim>\<open>_calculate_confidence\<close>: \<^verbatim>\<open>result.get("parsed", True)\<close>, which
  only a dictionary has.\<close>

definition default_confidence :: "json \<Rightarrow> py_exc + pyfloat" where
  "default_confidence result =
     (case result of
        JObject kvs \<Rightarrow>
          (if py_truthy (case map_of kvs ''parsed'' of None \<Rightarrow> JBool True | Some p \<Rightarrow> p)
           then Inr (Fin 0.85) else Inr (Fin 0.5))
      | _ \<Rightarrow> Inl AttributeError)"

text \<open>\<^verbatim>\<open>_calculate_confidence\<close>\<close>

definition calculate_confidence :: "pylib \<Rightarrow> json \<Rightarrow> py_exc + pyfloat" where
  "calculate_confidence lib result =
     (case result of
        JObject kvs \<Rightarrow>
          (case map_of kvs ''confidence'' of
             Some c \<Rightarrow> py_float lib c
           | None \<Rightarrow>
               (case map_of kvs ''overall_sentiment'' of
                  None \<Rightarrow> default_confidence result
                | Some os \<Rightarrow>
                    (case py_contains ''confidence'' os of
                       Inl e \<Rightarrow> Inl e
                     | Inr True \<Rightarrow>
                         (case py_getitem os ''confidence'' of
                            Inl e \<Rightarrow> Inl e
                          | Inr c \<Rightarrow> py_float lib c)
                     | Inr False \<Rightarrow> default_confidence result)))
      | _ \<Rightarrow> default_confidence result)"

section \<open>Enumeration arguments\<close>

text \<open>
  \<^verbatim>\<open>TaskType\<close> and \<^verbatim>\<open>ModelType\<close> are declared as \<^verbatim>\<open>class ...(str, Enum)\<close>, and Python
  does not check an annotation: where a member is expected the caller may pass a member
  or something else, of which the model keeps the plain strings. A member equals, and
  hashes as, its value, so a dictionary keyed by members finds the entry of a member also
  under the plain string that is the member's value; any other string misses. The
  attribute \<^verbatim>\<open>.value\<close> exists on a member only.
\<close>

datatype 'e enum_arg = Member 'e | Plain string

definition enum_dict_get ::
  "'e list \<Rightarrow> ('e \<Rightarrow> string) \<Rightarrow> ('e \<Rightarrow> 'v option) \<Rightarrow> 'e enum_arg \<Rightarrow> 'v option" where
  "enum_dict_get members value_of entries key =
     (case key of
        Member e \<Rightarrow> entries e
      | Plain s \<Rightarrow>
          (case find (\<lambda>e. value_of e = s) members of
             None \<Rightarrow> None
           | Some e \<Rightarrow> entries e))"

section \<open>Task routing and consensus (ai_orchestrator.py)\<close>

datatype AIModel =
    CLAUDE_OPUS | CLAUDE_SONNET | CLAUDE_HAIKU
  | GPT4_TURBO | GPT4_VISION | GPT35_TURBO
  | GEMINI_PRO | GEMINI_FLASH

fun AIModel_value :: "AIModel \<Rightarrow> string" where
  "AIModel_value CLAUDE_OPUS = ''claude-3-opus-20240229''"
| "AIModel_value CLAUDE_SONNET = ''claude-3-5-sonnet-20241022''"
| "AIModel_value CLAUDE_HAIKU = ''claude-3-haiku-20240307''"
| "AIModel_value GPT4_TURBO = ''gpt-4-turbo-preview''"
| "AIModel_value GPT4_VISION = ''gpt-4-vision-preview''"
| "AIModel_value GPT35_TURBO = ''gpt-3.5-turbo''"
| "AIModel_value GEMINI_PRO = ''gemini-1.5-pro''"
| "AIModel_value GEMINI_FLASH = ''gemini-1.5-flash''"

datatype TaskType =
    TRANSCRIPTION | SENTIMENT_ANALYSIS | ACTION_EXTRACTION | SUMMARY_GENERATION
  | SPEAKER_DIARIZATION | SCREENSHOT_ANALYSIS | DECISION_EXTRACTION
  | TOPIC_CLASSIFICATION | DEADLINE_PREDICTION | MEETING_SCORING

fun TaskType_value :: "TaskType \<Rightarrow> string" where
  "TaskType_value TRANSCRIPTION = ''transcription''"
| "TaskType_value SENTIMENT_ANALYSIS = ''sentiment_analysis''"
| "TaskType_value ACTION_EXTRACTION = ''action_extraction''"
| "TaskType_value SUMMARY_GENERATION = ''summary_generation''"
| "TaskType_value SPEAKER_DIARIZATION = ''speaker_diarization''"
| "TaskType_value SCREENSHOT_ANALYSIS = ''screenshot_analysis''"
| "TaskType_value DECISION_EXTRACTION = ''decision_extraction''"
| "TaskType_value TOPIC_CLASSIFICATION = ''topic_classification''"
| "TaskType_value DEADLINE_PREDICTION = ''deadline_prediction''"
| "TaskType_value MEETING_SCORING = ''meeting_scoring''"

definition TaskType_members :: "TaskType list" where
  "TaskType_members =
     [TRANSCRIPTION, SENTIMENT_ANALYSIS, ACTION_EXTRACTION, SUMMARY_GENERATION,
      SPEAKER_DIARIZATION, SCREENSHOT_ANALYSIS, DECISION_EXTRACTION,
      TOPIC_CLASSIFICATION, DEADLINE_PREDICTION, MEETING_SCORING]"

text \<open>\<^verbatim>\<open>task_type.value\<close>\<close>

definition task_type_value :: "TaskType enum_arg \<Rightarrow> py_exc + string" where
  "task_type_value tt =
     (case tt of Member t \<Rightarrow> Inr (TaskType_value t) | Plain s \<Rightarrow> Inl AttributeError)"

text \<open>The \<^verbatim>\<open>error\<close> field of a response is a fixed text or \<^verbatim>\<open>str(e)\<close> of a caught
  exception.\<close>

datatype error_text = Message string | StrOf py_exc

text \<open>\<^verbatim>\<open>AIResponse\<close>. The wall-clock field \<^verbatim>\<open>processing_time\<close> and the field
  \<^verbatim>\<open>metadata\<close>, which the code never sets, are left out.\<close>

record AIResponse =
  success :: bool
  model :: string
  task_type :: string
  result :: "json option"
  confidence :: pyfloat
  tokens_used :: int
  error :: "error_text option"

text \<open>The entries of the routing table that \<^verbatim>\<open>__init__\<close> stores in
  \<^verbatim>\<open>self.model_routing\<close>, and the table as \<^verbatim>\<open>.get\<close> reads it.\<close>

fun model_routing_entries :: "TaskType \<Rightarrow> AIModel list option" where
  "model_routing_entries TRANSCRIPTION = Some [GPT4_TURBO]"
| "model_routing_entries SENTIMENT_ANALYSIS = Some [CLAUDE_SONNET, GPT4_TURBO, GEMINI_PRO]"
| "model_routing_entries ACTION_EXTRACTION = Some [CLAUDE_SONNET, GPT4_TURBO]"
| "model_routing_entries SUMMARY_GENERATION = Some [CLAUDE_SONNET, GPT4_TURBO, GEMINI_FLASH]"
| "model_routing_entries SPEAKER_DIARIZATION = Some [GPT4_TURBO, CLAUDE_SONNET]"
| "model_routing_entries SCREENSHOT_ANALYSIS = Some [GPT4_VISION, CLAUDE_SONNET]"
| "model_routing_entries DECISION_EXTRACTION = Some [CLAUDE_SONNET, GPT4_TURBO]"
| "model_routing_entries TOPIC_CLASSIFICATION = Some [GEMINI_FLASH, GPT35_TURBO, CLAUDE_HAIKU]"
| "model_routing_entries DEADLINE_PREDICTION = Some [GPT4_TURBO, CLAUDE_SONNET]"
| "model_routing_entries MEETING_SCORING = Some [CLAUDE_SONNET, GPT4_TURBO]"

definition model_routing :: "TaskType enum_arg \<Rightarrow> AIModel list option" where
  "model_routing = enum_dict_get TaskType_members TaskType_value model_routing_entries"

text \<open>
  A request fixes the task type, the content and the context, hence the prompt. What the
  providers do with it is the parameter \<open>api\<close>: \<open>api n m\<close> is the outcome of the \<open>n\<close>-th
  provider call issued for the request, made to model \<open>m\<close>: the response text, or the
  exception the SDK raised. \<open>tokens\<close> is the token count of the prompt.

  \<^verbatim>\<open>_call_model\<close>: the three provider branches each return
  \<^verbatim>\<open>_parse_response(response_text)\<close>; the arguments of the \<^verbatim>\<open>AIResponse\<close> are then
  evaluated in the order written, \<^verbatim>\<open>task_type.value\<close> before the confidence; an
  exception is logged and raised again.
\<close>

definition call_model ::
  "pylib \<Rightarrow> (nat \<Rightarrow> AIModel \<Rightarrow> py_exc + string) \<Rightarrow> int \<Rightarrow> TaskType enum_arg
     \<Rightarrow> nat \<Rightarrow> AIModel \<Rightarrow> py_exc + AIResponse" where
  "call_model lib api tokens tt n m =
     (case api n m of
        Inl e \<Rightarrow> Inl e
      | Inr response_text \<Rightarrow>
          (case parse_response lib response_text of
             Inl e \<Rightarrow> Inl e
           | Inr res \<Rightarrow>
               (case task_type_value tt of
                  Inl e \<Rightarrow> Inl e
                | Inr tv \<Rightarrow>
                    (case calculate_confidence lib res of
                       Inl e \<Rightarrow> Inl e
                     | Inr c \<Rightarrow>
                         Inr \<lparr>success = True, model = AIModel_value m,
                              task_type = tv, result = Some res,
                              confidence = c, tokens_used = tokens, error = None\<rparr>))))"

text \<open>
  \<^verbatim>\<open>asyncio.gather(*aws, return_exceptions=True)\<close>. Every awaitable has a slot at its
  position; \<open>order\<close> lists the positions in the order in which the calls finish, and a
  finished call stores its outcome in its own slot. The join returns the slots, in
  position order, once none is empty; \<open>None\<close> means that the join is still waiting.
\<close>

definition gather :: "nat list \<Rightarrow> 'a list \<Rightarrow> 'a list option" where
  "gather order outs =
     those (fold (\<lambda>i slots. if i < length outs then slots[i := Some (outs ! i)] else slots)
                 order (replicate (length outs) None))"

text \<open>\<^verbatim>\<open>[r for r in responses if isinstance(r, AIResponse) and r.success]\<close>\<close>

fun valid_responses :: "(py_exc + AIResponse) list \<Rightarrow> AIResponse list" where
  "valid_responses [] = []"
| "valid_responses (Inl e # rs) = valid_responses rs"
| "valid_responses (Inr r # rs) =
     (if success r then r # valid_responses rs else valid_responses rs)"

text \<open>\<^verbatim>\<open>max(xs, key=lambda x: x.confidence)\<close>: a later element replaces the running
  maximum only when its key compares as greater.\<close>

fun max_confidence :: "AIResponse \<Rightarrow> AIResponse list \<Rightarrow> AIResponse" where
  "max_confidence best [] = best"
| "max_confidence best (x # xs) =
     max_confidence (if py_gt (confidence x) (confidence best) then x else best) xs"

text \<open>The response built by the outer \<^verbatim>\<open>except Exception\<close> handler of
  \<^verbatim>\<open>process_task\<close>, for a member.\<close>

definition orchestration_error :: "TaskType \<Rightarrow> py_exc \<Rightarrow> AIResponse" where
  "orchestration_error t e =
     \<lparr>success = False, model = ''unknown'', task_type = TaskType_value t,
      result = None, confidence = Fin 0, tokens_used = 0, error = Some (StrOf e)\<rparr>"

text \<open>The handler itself: it reads \<^verbatim>\<open>task_type.value\<close>, and an exception raised inside
  a handler leaves the function.\<close>

definition except_handler :: "TaskType enum_arg \<Rightarrow> py_exc \<Rightarrow> py_exc + AIResponse" where
  "except_handler tt e =
     (case tt of Member t \<Rightarrow> Inr (orchestration_error t e) | Plain s \<Rightarrow> Inl AttributeError)"

text \<open>The response built after the fallback loop has run out of models, for a member.\<close>

definition all_models_failed :: "TaskType \<Rightarrow> AIModel \<Rightarrow> AIResponse" where
  "all_models_failed t m0 =
     \<lparr>success = False, model = AIModel_value m0, task_type = TaskType_value t,
      result = None, confidence = Fin 0, tokens_used = 0,
      error = Some (Message ''All models failed'')\<rparr>"

text \<open>The statement after the loop: it reads \<^verbatim>\<open>models[0]\<close>, then \<^verbatim>\<open>task_type.value\<close>.\<close>

definition loop_exhausted :: "TaskType enum_arg \<Rightarrow> AIModel list \<Rightarrow> py_exc + AIResponse" where
  "loop_exhausted tt models =
     (case models of
        [] \<Rightarrow> Inl IndexError
      | m0 # ms \<Rightarrow>
          (case tt of
             Member t \<Rightarrow> Inr (all_models_failed t m0)
           | Plain s \<Rightarrow> Inl AttributeError))"

text \<open>The \<^verbatim>\<open>for model in models\<close> loop of the sequential branch. \<open>n\<close> numbers the
  provider calls; the second component lists the models called, in call order.\<close>

fun fallback_loop ::
  "(nat \<Rightarrow> AIModel \<Rightarrow> py_exc + AIResponse) \<Rightarrow> nat \<Rightarrow> AIModel list
     \<Rightarrow> AIResponse option \<times> AIModel list" where
  "fallback_loop call n [] = (None, [])"
| "fallback_loop call n (m # ms) =
     (case call n m of
        Inr response \<Rightarrow>
          (if success response then (Some response, [m])
           else (case fallback_loop call (Suc n) ms of (r, tried) \<Rightarrow> (r, m # tried)))
      | Inl e \<Rightarrow> (case fallback_loop call (Suc n) ms of (r, tried) \<Rightarrow> (r, m # tried)))"

text \<open>
  The body of the \<^verbatim>\<open>try\<close> statement of \<^verbatim>\<open>process_task\<close>: what it returns or raises,
  together with the list of models to which provider calls were issued, in issue
  order. \<open>None\<close> means that the join of the parallel branch never completes.
\<close>

definition try_body ::
  "pylib \<Rightarrow> (nat \<Rightarrow> AIModel \<Rightarrow> py_exc + string) \<Rightarrow> int \<Rightarrow> nat list \<Rightarrow> TaskType enum_arg
     \<Rightarrow> bool \<Rightarrow> AIModel list \<Rightarrow> ((py_exc + AIResponse) \<times> AIModel list) option" where
  "try_body lib api tokens order tt use_parallel models =
     (let call = call_model lib api tokens tt
      in if use_parallel \<and> length models > 1 then
           (case gather order (map (\<lambda>(n, m). call n m) (enumerate 0 (take 2 models))) of
              None \<Rightarrow> None
            | Some responses \<Rightarrow>
                (case valid_responses responses of
                   v # vs \<Rightarrow> Some (Inr (max_confidence v vs), take 2 models)
                 | [] \<Rightarrow> Some (call 2 (hd models), take 2 models @ [hd models])))
         else
           (case fallback_loop call 0 models of
              (Some response, tried) \<Rightarrow> Some (Inr response, tried)
            | (None, tried) \<Rightarrow> Some (loop_exhausted tt models, tried)))"

text \<open>
  \<^verbatim>\<open>process_task\<close>: the lookup with its default, the \<^verbatim>\<open>try\<close> body, and the outer handler
  for whatever the body raises. \<open>routing\<close> is \<^verbatim>\<open>self.model_routing\<close>. \<open>Inl e\<close> in the result
  means that \<^verbatim>\<open>process_task\<close> itself raises \<open>e\<close>.
\<close>

definition process_task ::
  "(TaskType enum_arg \<Rightarrow> AIModel list option) \<Rightarrow> pylib
     \<Rightarrow> (nat \<Rightarrow> AIModel \<Rightarrow> py_exc + string) \<Rightarrow> int \<Rightarrow> nat list \<Rightarrow> TaskType enum_arg \<Rightarrow> bool
     \<Rightarrow> ((py_exc + AIResponse) \<times> AIModel list) option" where
  "process_task routing lib api tokens order tt use_parallel =
     (let models = (case routing tt of None \<Rightarrow> [CLAUDE_SONNET] | Some ms \<Rightarrow> ms)
      in case try_body lib api tokens order tt use_parallel models of
           None \<Rightarrow> None
         | Some (Inr response, called) \<Rightarrow> Some (Inr response, called)
         | Some (Inl e, called) \<Rightarrow> Some (except_handler tt e, called))"

section \<open>Model registry, selection and failover (ai_multi_model.py)\<close>

datatype ModelType = VISION | AUDIO | ANALYSIS | SUMMARY | CODE

datatype ModelProvider = ANTHROPIC | OPENAI | GOOGLE

fun ModelType_value :: "ModelType \<Rightarrow> string" where
  "ModelType_value VISION = ''vision''"
| "ModelType_value AUDIO = ''audio''"
| "ModelType_value ANALYSIS = ''analysis''"
| "ModelType_value SUMMARY = ''summary''"
| "ModelType_value CODE = ''code''"

definition ModelType_members :: "ModelType list" where
  "ModelType_members = [VISION, AUDIO, ANALYSIS, SUMMARY, CODE]"

fun ModelProvider_value :: "ModelProvider \<Rightarrow> string" where
  "ModelProvider_value ANTHROPIC = ''anthropic''"
| "ModelProvider_value OPENAI = ''openai''"
| "ModelProvider_value GOOGLE = ''google''"

record ModelConfig =
  provider :: ModelProvider
  model_id :: string
  max_tokens :: int
  temperature :: real
  cost_per_1k_tokens :: real
  speed_score :: int
  quality_score :: int
  is_available :: bool

text \<open>The entries of \<^verbatim>\<open>MODEL_REGISTRY\<close>, with the defaults of the dataclass written
  out, and the dictionary as \<^verbatim>\<open>.get\<close> reads it.\<close>

fun MODEL_REGISTRY_entries :: "ModelType \<Rightarrow> ModelConfig list option" where
  "MODEL_REGISTRY_entries VISION = Some
     [\<lparr>provider = ANTHROPIC, model_id = ''claude-3-5-sonnet-20241022'', max_tokens = 4096,
       temperature = 0.7, cost_per_1k_tokens = 0.003, speed_score = 8, quality_score = 10,
       is_available = True\<rparr>,
      \<lparr>provider = OPENAI, model_id = ''gpt-4-vision-preview'', max_tokens = 4096,
       temperature = 0.7, cost_per_1k_tokens = 0.01, speed_score = 6, quality_score = 9,
       is_available = True\<rparr>,
      \<lparr>provider = GOOGLE, model_id = ''gemini-pro-vision'', max_tokens = 4096,
       temperature = 0.7, cost_per_1k_tokens = 0.00025, speed_score = 9, quality_score = 8,
       is_available = True\<rparr>]"
| "MODEL_REGISTRY_entries AUDIO = Some
     [\<lparr>provider = OPENAI, model_id = ''whisper-1'', max_tokens = 0,
       temperature = 0.7, cost_per_1k_tokens = 0.006, speed_score = 7, quality_score = 10,
       is_available = True\<rparr>]"
| "MODEL_REGISTRY_entries ANALYSIS = Some
     [\<lparr>provider = ANTHROPIC, model_id = ''claude-3-opus-20240229'', max_tokens = 4096,
       temperature = 0.5, cost_per_1k_tokens = 0.015, speed_score = 6, quality_score = 10,
       is_available = True\<rparr>,
      \<lparr>provider = OPENAI, model_id = ''gpt-4-turbo-preview'', max_tokens = 4096,
       temperature = 0.5, cost_per_1k_tokens = 0.01, speed_score = 8, quality_score = 9,
       is_available = True\<rparr>,
      \<lparr>provider = GOOGLE, model_id = ''gemini-1.5-pro-latest'', max_tokens = 8192,
       temperature = 0.5, cost_per_1k_tokens = 0.00125, speed_score = 9, quality_score = 8,
       is_available = True\<rparr>]"
| "MODEL_REGISTRY_entries SUMMARY = Some
     [\<lparr>provider = ANTHROPIC, model_id = ''claude-3-haiku-20240307'', max_tokens = 4096,
       temperature = 0.3, cost_per_1k_tokens = 0.00025, speed_score = 10, quality_score = 8,
       is_available = True\<rparr>,
      \<lparr>provider = OPENAI, model_id = ''gpt-3.5-turbo-16k'', max_tokens = 4096,
       temperature = 0.3, cost_per_1k_tokens = 0.0015, speed_score = 9, quality_score = 7,
       is_available = True\<rparr>,
      \<lparr>provider = GOOGLE, model_id = ''gemini-pro'', max_tokens = 4096,
       temperature = 0.3, cost_per_1k_tokens = 0.00025, speed_score = 9, quality_score = 7,
       is_available = True\<rparr>]"
| "MODEL_REGISTRY_entries CODE = Some
     [\<lparr>provider = ANTHROPIC, model_id = ''claude-3-5-sonnet-20241022'', max_tokens = 4096,
       temperature = 0, cost_per_1k_tokens = 0.003, speed_score = 8, quality_score = 10,
       is_available = True\<rparr>,
      \<lparr>provider = OPENAI, model_id = ''gpt-4'', max_tokens = 4096,
       temperature = 0, cost_per_1k_tokens = 0.03, speed_score = 7, quality_score = 9,
       is_available = True\<rparr>]"

definition MODEL_REGISTRY :: "ModelType enum_arg \<Rightarrow> ModelConfig list option" where
  "MODEL_REGISTRY = enum_dict_get ModelType_members ModelType_value MODEL_REGISTRY_entries"

text \<open>
  \<^verbatim>\<open>list.sort(key=..., reverse=True)\<close>. CPython sorts in descending order by reversing
  the list, running its stable ascending sort and reversing the result, which keeps
  elements with equal keys in their original order.
\<close>

definition sort_reverse :: "('a \<Rightarrow> 'k::linorder) \<Rightarrow> 'a list \<Rightarrow> 'a list" where
  "sort_reverse key xs = rev (sort_key key (rev xs))"

text \<open>The default sort key, \<^verbatim>\<open>lambda m: (m.quality_score + m.speed_score) / 2\<close>.\<close>

definition balance :: "ModelConfig \<Rightarrow> real" where
  "balance m = real_of_int (quality_score m + speed_score m) / 2"

text \<open>\<^verbatim>\<open>_select_models\<close>; \<open>registry\<close> is the module-level \<^verbatim>\<open>MODEL_REGISTRY\<close>.\<close>

definition select_models ::
  "(ModelType enum_arg \<Rightarrow> ModelConfig list option) \<Rightarrow> ModelType enum_arg \<Rightarrow> bool \<Rightarrow> bool
     \<Rightarrow> real option \<Rightarrow> ModelConfig list" where
  "select_models registry model_type prefer_speed prefer_quality max_cost =
     (let models = (case registry model_type of None \<Rightarrow> [] | Some ms \<Rightarrow> ms);
          available =
            filter (\<lambda>m. is_available m \<and>
                         (case max_cost of None \<Rightarrow> True
                          | Some c \<Rightarrow> cost_per_1k_tokens m \<le> c)) models
      in if available = [] then []
         else if prefer_speed then sort_reverse speed_score available
         else if prefer_quality then sort_reverse quality_score available
         else sort_reverse balance available)"

subsection \<open>Usage counters\<close>

text \<open>A Python \<^verbatim>\<open>dict\<close> as an insertion-ordered association list: assignment replaces
  the value of a present key in place and appends an absent key.\<close>

fun dict_set :: "('k \<times> 'v) list \<Rightarrow> 'k \<Rightarrow> 'v \<Rightarrow> ('k \<times> 'v) list" where
  "dict_set [] k v = [(k, v)]"
| "dict_set ((k', v') # d) k v =
     (if k' = k then (k, v) # d else (k', v') # dict_set d k v)"

definition dict_get :: "('k \<times> 'v) list \<Rightarrow> 'k \<Rightarrow> 'v \<Rightarrow> 'v" where
  "dict_get d k dflt = (case map_of d k of None \<Rightarrow> dflt | Some v \<Rightarrow> v)"

text \<open>\<^verbatim>\<open>sum(d.values())\<close>\<close>

definition sum_values :: "('k \<times> int) list \<Rightarrow> int" where
  "sum_values d = sum_list (map snd d)"

text \<open>The three counters of the orchestrator object.\<close>

record ledger =
  request_count :: "(string \<times> int) list"
  error_count :: "(string \<times> int) list"
  total_cost :: real

text \<open>The state after \<^verbatim>\<open>__init__\<close>.\<close>

definition init_ledger :: ledger where
  "init_ledger = \<lparr>request_count = [], error_count = [], total_cost = 0\<rparr>"

definition model_key :: "ModelConfig \<Rightarrow> string" where
  "model_key config = ModelProvider_value (provider config) @ ''/'' @ model_id config"

definition track_success :: "ledger \<Rightarrow> ModelConfig \<Rightarrow> ledger" where
  "track_success L config =
     L\<lparr>request_count :=
         dict_set (request_count L) (model_key config)
                  (dict_get (request_count L) (model_key config) 0 + 1)\<rparr>"

definition track_error :: "ledger \<Rightarrow> ModelConfig \<Rightarrow> ledger" where
  "track_error L config =
     L\<lparr>error_count :=
         dict_set (error_count L) (model_key config)
                  (dict_get (error_count L) (model_key config) 0 + 1)\<rparr>"

text \<open>\<^verbatim>\<open>_estimate_cost\<close> returns the cost and adds it to \<^verbatim>\<open>self.total_cost\<close>.\<close>

definition estimate_cost :: "ledger \<Rightarrow> string \<Rightarrow> string \<Rightarrow> ModelConfig \<Rightarrow> real \<times> ledger" where
  "estimate_cost L prompt response config =
     (let total_tokens = real (length prompt + length response) / 4;
          cost = (total_tokens / 1000) * cost_per_1k_tokens config
      in (cost, L\<lparr>total_cost := total_cost L + cost\<rparr>))"

subsection \<open>Failover\<close>

text \<open>The dictionary that \<^verbatim>\<open>generate\<close> returns, without the wall-clock entry
  \<^verbatim>\<open>latency_ms\<close>. The entries \<^verbatim>\<open>provider\<close> and \<^verbatim>\<open>success\<close> are the fields
  \<open>provider_value\<close> and \<open>succeeded\<close>.\<close>

record generation =
  response :: string
  model_used :: string
  provider_value :: string
  cost :: real
  succeeded :: bool

text \<open>The two errors that \<^verbatim>\<open>generate\<close> raises: the \<^verbatim>\<open>ValueError\<close> naming the model
  type, and the \<^verbatim>\<open>RuntimeError\<close> whose message is built from the model type and from
  \<^verbatim>\<open>last_error\<close>.\<close>

datatype generate_error =
    NoAvailableModels "ModelType enum_arg"
  | AllModelsFailed "ModelType enum_arg" "py_exc option"

text \<open>
  The \<^verbatim>\<open>for model_config in models\<close> loop. \<open>call n config prompt\<close> is the outcome of the
  \<open>n\<close>-th provider call of the request: the generated text or the exception raised.
  The loop returns the result, or \<^verbatim>\<open>last_error\<close> when it runs out of models; the
  ledger; and the models called, in call order.
\<close>

fun generate_loop ::
  "(nat \<Rightarrow> ModelConfig \<Rightarrow> string \<Rightarrow> py_exc + string) \<Rightarrow> string \<Rightarrow> nat \<Rightarrow> ModelConfig list
     \<Rightarrow> py_exc option \<Rightarrow> ledger \<Rightarrow> (py_exc option + generation) \<times> ledger \<times> ModelConfig list" where
  "generate_loop call prompt n [] last_error L = (Inl last_error, L, [])"
| "generate_loop call prompt n (config # rest) last_error L =
     (case call n config prompt of
        Inr text \<Rightarrow>
          (let L1 = track_success L config;
               (c, L2) = estimate_cost L1 prompt text config
           in (Inr \<lparr>response = text, model_used = model_id config,
                    provider_value = ModelProvider_value (provider config),
                    cost = c, succeeded = True\<rparr>, L2, [config]))
      | Inl e \<Rightarrow>
          (case generate_loop call prompt (Suc n) rest (Some e) (track_error L config) of
             (r, L', called) \<Rightarrow> (r, L', config # called)))"

text \<open>\<^verbatim>\<open>generate\<close>. The parameter \<^verbatim>\<open>max_retries\<close> is never read and is left out. The
  model type is only looked up and formatted into messages, so a value that is not a
  member raises nothing by itself.\<close>

definition generate ::
  "(ModelType enum_arg \<Rightarrow> ModelConfig list option)
     \<Rightarrow> (nat \<Rightarrow> ModelConfig \<Rightarrow> string \<Rightarrow> py_exc + string)
     \<Rightarrow> ledger \<Rightarrow> string \<Rightarrow> ModelType enum_arg \<Rightarrow> bool \<Rightarrow> bool \<Rightarrow> real option
     \<Rightarrow> (generate_error + generation) \<times> ledger \<times> ModelConfig list" where
  "generate registry call L prompt model_type prefer_speed prefer_quality max_cost =
     (let models = select_models registry model_type prefer_speed prefer_quality max_cost
      in if models = [] then (Inl (NoAvailableModels model_type), L, [])
         else (case generate_loop call prompt 0 models None L of
                 (Inr r, L', called) \<Rightarrow> (Inr r, L', called)
               | (Inl last_error, L', called) \<Rightarrow>
                   (Inl (AllModelsFailed model_type last_error), L', called)))"

subsection \<open>Statistics\<close>

definition calculate_success_rate :: "ledger \<Rightarrow> real" where
  "calculate_success_rate L =
     (let total_requests = sum_values (request_count L);
          total_errors = sum_values (error_count L)
      in if total_requests + total_errors = 0 then 1
         else real_of_int total_requests / real_of_int (total_requests + total_errors))"

text \<open>\<^verbatim>\<open>round(x, 4)\<close>: to four decimals, a tie going to the even neighbour.\<close>

definition round4 :: "real \<Rightarrow> real" where
  "round4 x =
     (let y = x * 10000; f = \<lfloor>y\<rfloor>
      in real_of_int (if y - real_of_int f < 1 / 2 then f
                      else if y - real_of_int f > 1 / 2 then f + 1
                      else if even f then f else f + 1) / 10000)"

record stats =
  total_requests :: int
  total_errors :: int
  total_cost_usd :: real
  requests_by_model :: "(string \<times> int) list"
  errors_by_model :: "(string \<times> int) list"
  success_rate :: real

definition get_stats :: "ledger \<Rightarrow> stats" where
  "get_stats L =
     \<lparr>total_requests = sum_values (request_count L),
      total_errors = sum_values (error_count L),
      total_cost_usd = round4 (total_cost L),
      requests_by_model = request_count L,
      errors_by_model = error_count L,
      success_rate = calculate_success_rate L\<rparr>"

section \<open>Example data\<close>

text \<open>A model configuration that is available and costs 0.01, with a given name and
  speed score; and a registry with three of them under \<^const>\<open>ANALYSIS\<close>, in the order
  \<open>A, B, C\<close>.\<close>

definition example_config :: "string \<Rightarrow> int \<Rightarrow> ModelConfig" where
  "example_config name speed =
     \<lparr>provider = ANTHROPIC, model_id = name, max_tokens = 4096, temperature = 0.7,
      cost_per_1k_tokens = 0.01, speed_score = speed, quality_score = 5,
      is_available = True\<rparr>"

definition example_registry :: "ModelType enum_arg \<Rightarrow> ModelConfig list option" where
  "example_registry key =
     (if key = Member ANALYSIS
      then Some [example_config ''A'' 8, example_config ''B'' 9, example_config ''C'' 8]
      else None)"

text \<open>
  A table of what \<^verbatim>\<open>json.loads\<close> does on the texts used in the examples below: it raises
  \<^verbatim>\<open>ValueError\<close> on an integer literal of more than 4300 digits, it decodes the listed
  documents (the literal \<^verbatim>\<open>NaN\<close> is accepted and gives the float NaN), and any other
  text of the examples is not JSON. No example calls \<^verbatim>\<open>float\<close> on a string.
\<close>

definition sample_loads :: "string \<Rightarrow> py_exc + json" where
  "sample_loads s =
     (if 4300 < length s \<and> list_all (\<lambda>c. c \<in> set ''123456789'') s then Inl ValueError
      else if s = ''{}'' then Inr (JObject [])
      else if s = ''[1, 2]'' then Inr (JArray [JInt 1, JInt 2])
      else if s = ''{\"parsed\": false}'' then Inr (JObject [(''parsed'', JBool False)])
      else if s = ''{\"confidence\": 5}'' then Inr (JObject [(''confidence'', JInt 5)])
      else if s = ''{\"confidence\": NaN}'' then Inr (JObject [(''confidence'', JFloat NaN)])
      else if s = ''{\"confidence\": 0.6}''
        then Inr (JObject [(''confidence'', JFloat (Fin 0.6))])
      else if s = ''{\"confidence\": 0.9}''
        then Inr (JObject [(''confidence'', JFloat (Fin 0.9))])
      else if s = ''{\"confidence\": 0.92, \"x\": 1}''
        then Inr (JObject [(''confidence'', JFloat (Fin 0.92)), (''x'', JInt 1)])
      else if s = ''{\"overall_sentiment\": {\"confidence\": 0.7}}''
        then Inr (JObject [(''overall_sentiment'', JObject [(''confidence'', JFloat (Fin 0.7))])])
      else Inl JSONDecodeError)"

definition sample_lib :: pylib where
  "sample_lib = \<lparr>json_loads = sample_loads, float_of_str = (\<lambda>s. None)\<rparr>"

text \<open>The fenced response of the specification's example: a sentence, then a block
  tagged \<^verbatim>\<open>json\<close> holding a document with a confidence of 0.92.\<close>

definition example_fenced :: string where
  "example_fenced =
     ''Sure, here you go:'' @ [CHR 0x0A] @ ''```json'' @ [CHR 0x0A]
       @ ''{\"confidence\": 0.92, \"x\": 1}'' @ [CHR 0x0A] @ ''```''"

text \<open>Provider behaviours for \<^const>\<open>process_task\<close>: every call times out; only Gemini
  Pro answers; every model answers with an empty object; every model answers with a
  confidence of 5; Claude Sonnet answers with confidence 0.6 and the others with 0.9;
  every model answers with confidence 0.9; Claude Sonnet answers with a NaN confidence
  and the others with 0.9; every model answers with a confidence of 0.7 under
  \<^verbatim>\<open>overall_sentiment\<close>.\<close>

definition api_down :: "nat \<Rightarrow> AIModel \<Rightarrow> py_exc + string" where
  "api_down n m = Inl (ProviderError ''timeout'')"

definition api_only_gemini :: "nat \<Rightarrow> AIModel \<Rightarrow> py_exc + string" where
  "api_only_gemini n m =
     (if m = GEMINI_PRO then Inr ''{}'' else Inl (ProviderError ''timeout''))"

definition api_empty_object :: "nat \<Rightarrow> AIModel \<Rightarrow> py_exc + string" where
  "api_empty_object n m = Inr ''{}''"

definition api_confident :: "nat \<Rightarrow> AIModel \<Rightarrow> py_exc + string" where
  "api_confident n m = Inr ''{\"confidence\": 5}''"

definition api_two_answers :: "nat \<Rightarrow> AIModel \<Rightarrow> py_exc + string" where
  "api_two_answers n m =
     (if m = CLAUDE_SONNET then Inr ''{\"confidence\": 0.6}'' else Inr ''{\"confidence\": 0.9}'')"

definition api_tie :: "nat \<Rightarrow> AIModel \<Rightarrow> py_exc + string" where
  "api_tie n m = Inr ''{\"confidence\": 0.9}''"

definition api_nan_first :: "nat \<Rightarrow> AIModel \<Rightarrow> py_exc + string" where
  "api_nan_first n m =
     (if m = CLAUDE_SONNET then Inr ''{\"confidence\": NaN}'' else Inr ''{\"confidence\": 0.9}'')"

definition api_sentiment :: "nat \<Rightarrow> AIModel \<Rightarrow> py_exc + string" where
  "api_sentiment n m = Inr ''{\"overall_sentiment\": {\"confidence\": 0.7}}''"


definition all_down :: "nat \<Rightarrow> ModelConfig \<Rightarrow> string \<Rightarrow> py_exc + string" where
  "all_down n config prompt = Inl (ProviderError (model_id config))"

section \<open>Model selection\<close>

lemma mset_sort_reverse: "mset (sort_reverse f xs) = mset xs"
  by (simp add: sort_reverse_def)

lemma sorted_sort_reverse: "sorted_wrt (\<lambda>a b. f b \<le> f a) (sort_reverse f xs)"
proof -
  have "sorted (map f (sort_key f (rev xs)))" by simp
  then have "sorted_wrt (\<lambda>a b. f a \<le> f b) (sort_key f (rev xs))"
    by (simp add: sorted_map)
  then show ?thesis
    by (simp add: sort_reverse_def sorted_wrt_rev)
qed

lemma stable_sort_reverse:
  "filter (\<lambda>y. f y = k) (sort_reverse f xs) = filter (\<lambda>y. f y = k) xs"
proof -
  have "filter (\<lambda>y. f y = k) (sort_reverse f xs)
          = rev (filter (\<lambda>y. f y = k) (sort_key f (rev xs)))"
    by (simp add: sort_reverse_def rev_filter)
  also have "\<dots> = rev (filter (\<lambda>y. f y = k) (rev xs))"
    by (simp only: sort_key_stable)
  also have "\<dots> = filter (\<lambda>y. f y = k) xs"
    by (simp add: rev_filter)
  finally show ?thesis .
qed

lemma select_models_by_key:
  assumes "registry model_type = Some candidates"
  shows "let kept = filter (\<lambda>m. is_available m \<and>
                              (\<forall>c. max_cost = Some c \<longrightarrow> cost_per_1k_tokens m \<le> c)) candidates;
             selected = select_models registry model_type prefer_speed prefer_quality max_cost
         in mset selected = mset kept
          \<and> (prefer_speed \<longrightarrow>
               sorted_wrt (\<lambda>a b. speed_score a \<ge> speed_score b) selected
             \<and> (\<forall>k. filter (\<lambda>m. speed_score m = k) selected
                    = filter (\<lambda>m. speed_score m = k) kept))
          \<and> (\<not> prefer_speed \<and> prefer_quality \<longrightarrow>
               sorted_wrt (\<lambda>a b. quality_score a \<ge> quality_score b) selected
             \<and> (\<forall>k. filter (\<lambda>m. quality_score m = k) selected
                    = filter (\<lambda>m. quality_score m = k) kept))
          \<and> (\<not> prefer_speed \<and> \<not> prefer_quality \<longrightarrow>
               sorted_wrt (\<lambda>a b. balance a \<ge> balance b) selected
             \<and> (\<forall>k. filter (\<lambda>m. balance m = k) selected
                    = filter (\<lambda>m. balance m = k) kept))"
proof -
  define keep where "keep = (\<lambda>m::ModelConfig. is_available m \<and>
        (case max_cost of None \<Rightarrow> True | Some c \<Rightarrow> cost_per_1k_tokens m \<le> c))"
  have keep_eq: "keep = (\<lambda>m. is_available m \<and>
                              (\<forall>c. max_cost = Some c \<longrightarrow> cost_per_1k_tokens m \<le> c))"
    by (auto simp: keep_def fun_eq_iff split: option.splits)
  define kept where "kept = filter keep candidates"
  have sel: "select_models registry model_type prefer_speed prefer_quality max_cost =
       (if kept = [] then []
        else if prefer_speed then sort_reverse speed_score kept
        else if prefer_quality then sort_reverse quality_score kept
        else sort_reverse balance kept)"
    using assms by (simp add: select_models_def kept_def keep_def)
  show ?thesis
    unfolding Let_def keep_eq [symmetric] kept_def [symmetric] sel
    by (simp add: mset_sort_reverse sorted_sort_reverse stable_sort_reverse)
qed

text \<open>
  Claim C5. For a registry entry \<open>candidates\<close>, \<^const>\<open>select_models\<close> returns exactly the
  candidates that are available and, when a cost ceiling is given, cost at most the
  ceiling (as a multiset: nothing is lost, added or duplicated). The result is sorted in
  descending order of the speed score when speed is preferred, of the quality score when
  quality (and not speed) is preferred, and of \<open>(quality_score + speed_score) / 2\<close>
  otherwise. Candidates with equal keys keep their registry order: the sublist of the
  result with any given key is the sublist of the kept candidates with that key.
\<close>

theorem select_models_filters_and_sorts:
  assumes "registry model_type = Some candidates"
  shows "let kept = filter (\<lambda>m. is_available m \<and>
                              (\<forall>c. max_cost = Some c \<longrightarrow> cost_per_1k_tokens m \<le> c)) candidates;
             selected = select_models registry model_type prefer_speed prefer_quality max_cost
         in mset selected = mset kept
          \<and> (prefer_speed \<longrightarrow>
               sorted_wrt (\<lambda>a b. speed_score a \<ge> speed_score b) selected
             \<and> (\<forall>k. filter (\<lambda>m. speed_score m = k) selected
                    = filter (\<lambda>m. speed_score m = k) kept))
          \<and> (\<not> prefer_speed \<and> prefer_quality \<longrightarrow>
               sorted_wrt (\<lambda>a b. quality_score a \<ge> quality_score b) selected
             \<and> (\<forall>k. filter (\<lambda>m. quality_score m = k) selected
                    = filter (\<lambda>m. quality_score m = k) kept))
          \<and> (\<not> prefer_speed \<and> \<not> prefer_quality \<longrightarrow>
               sorted_wrt (\<lambda>a b. real_of_int (quality_score a + speed_score a) / 2
                                 \<ge> real_of_int (quality_score b + speed_score b) / 2) selected
             \<and> (\<forall>k. filter (\<lambda>m. real_of_int (quality_score m + speed_score m) / 2 = k)
                           selected
                    = filter (\<lambda>m. real_of_int (quality_score m + speed_score m) / 2 = k)
                           kept))"
  using assms
  by (rule select_models_by_key
             [of registry model_type candidates max_cost prefer_speed prefer_quality,
              unfolded balance_def])

text \<open>The example of the specification: speeds \<open>A = 8\<close>, \<open>B = 9\<close>, \<open>C = 8\<close> in the order
  \<open>A, B, C\<close> are selected, under a preference for speed, in the order \<open>B, A, C\<close>. On the
  analysis models of the registry (speed and quality 6 and 10, 8 and 9, 9 and 8) the
  default order puts the two models of mean 8.5 first, in registry order, the preference
  for quality gives the registry order, and a ceiling of 0.01 drops the first model.\<close>

theorem select_models_example:
  "example_registry (Member ANALYSIS)
      = Some [example_config ''A'' 8, example_config ''B'' 9, example_config ''C'' 8]
   \<and> select_models example_registry (Member ANALYSIS) True False None
      = [example_config ''B'' 9, example_config ''A'' 8, example_config ''C'' 8]
   \<and> map model_id (select_models MODEL_REGISTRY (Member ANALYSIS) False False None)
      = [''gpt-4-turbo-preview'', ''gemini-1.5-pro-latest'', ''claude-3-opus-20240229'']
   \<and> map model_id (select_models MODEL_REGISTRY (Member ANALYSIS) False True None)
      = [''claude-3-opus-20240229'', ''gpt-4-turbo-preview'', ''gemini-1.5-pro-latest'']
   \<and> map model_id (select_models MODEL_REGISTRY (Member ANALYSIS) False False (Some 0.01))
      = [''gpt-4-turbo-preview'', ''gemini-1.5-pro-latest'']"
proof -
  have r: "example_registry (Member ANALYSIS)
      = Some [example_config ''A'' 8, example_config ''B'' 9, example_config ''C'' 8]"
    by (simp add: example_registry_def)
  note inst = select_models_filters_and_sorts
    [of example_registry "Member ANALYSIS"
        "[example_config ''A'' 8, example_config ''B'' 9, example_config ''C'' 8]"
        None True False, OF r]
  have speed: "select_models example_registry (Member ANALYSIS) True False None
      = [example_config ''B'' 9, example_config ''A'' 8, example_config ''C'' 8]"
    using inst
    by (simp add: select_models_def sort_reverse_def example_config_def example_registry_def)
  have balanced: "map model_id (select_models MODEL_REGISTRY (Member ANALYSIS) False False None)
      = [''gpt-4-turbo-preview'', ''gemini-1.5-pro-latest'', ''claude-3-opus-20240229'']"
    by (simp add: select_models_def sort_reverse_def balance_def MODEL_REGISTRY_def
        enum_dict_get_def)
  have quality: "map model_id (select_models MODEL_REGISTRY (Member ANALYSIS) False True None)
      = [''claude-3-opus-20240229'', ''gpt-4-turbo-preview'', ''gemini-1.5-pro-latest'']"
    by (simp add: select_models_def sort_reverse_def MODEL_REGISTRY_def enum_dict_get_def)
  have ceiling: "map model_id
        (select_models MODEL_REGISTRY (Member ANALYSIS) False False (Some 0.01))
      = [''gpt-4-turbo-preview'', ''gemini-1.5-pro-latest'']"
    by (simp add: select_models_def sort_reverse_def balance_def MODEL_REGISTRY_def
        enum_dict_get_def)
  from r speed balanced quality ceiling show ?thesis by simp
qed

section \<open>Statistics\<close>

text \<open>
  Claim C9. In every ledger state the success rate reported by \<^const>\<open>get_stats\<close> is
  \<open>total_requests / (total_requests + total_errors)\<close>, where the two totals are the sums
  of the per-model counters, and it is \<open>1\<close> when both sums are zero.
\<close>

theorem success_rate_formula:
  "total_requests (get_stats L) = sum_list (map snd (request_count L))
   \<and> total_errors (get_stats L) = sum_list (map snd (error_count L))
   \<and> (total_requests (get_stats L) = 0 \<and> total_errors (get_stats L) = 0
        \<longrightarrow> success_rate (get_stats L) = 1)
   \<and> (total_requests (get_stats L) + total_errors (get_stats L) \<noteq> 0
        \<longrightarrow> success_rate (get_stats L)
              = real_of_int (total_requests (get_stats L))
                / real_of_int (total_requests (get_stats L) + total_errors (get_stats L)))"
  by (simp add: get_stats_def calculate_success_rate_def sum_values_def Let_def)

theorem success_rate_no_traffic:
  "total_requests (get_stats init_ledger) = 0 \<and> total_errors (get_stats init_ledger) = 0
   \<and> success_rate (get_stats init_ledger) = 1"
  using success_rate_formula [of init_ledger]
  by (simp add: get_stats_def init_ledger_def sum_values_def)

section \<open>Usage counters and failover\<close>

lemma sum_values_dict_set:
  "sum_values (dict_set d k (dict_get d k 0 + 1)) = sum_values d + 1"
  by (induction d) (auto simp: sum_values_def dict_get_def)


lemma track_error_fields:
  "sum_values (error_count (track_error L c)) = sum_values (error_count L) + 1"
  "request_count (track_error L c) = request_count L"
  "total_cost (track_error L c) = total_cost L"
  by (simp_all add: track_error_def sum_values_dict_set)

lemma generate_loop_all_fail:
  assumes "\<forall>i<length ms. \<exists>e. call (n + i) (ms ! i) prompt = Inl e"
  shows "\<exists>L' le. generate_loop call prompt n ms last_error L = (Inl le, L', ms)
           \<and> (ms = [] \<longrightarrow> le = last_error)
           \<and> (ms \<noteq> [] \<longrightarrow> (\<exists>e. le = Some e
                  \<and> call (n + (length ms - 1)) (last ms) prompt = Inl e))
           \<and> sum_values (error_count L') = sum_values (error_count L) + int (length ms)
           \<and> request_count L' = request_count L
           \<and> total_cost L' = total_cost L"
  using assms
proof (induction ms arbitrary: n last_error L)
  case Nil
  then show ?case by simp
next
  case (Cons m ms)
  from Cons.prems have "\<exists>e. call (n + 0) ((m # ms) ! 0) prompt = Inl e" by blast
  then obtain e where e: "call n m prompt = Inl e" by auto
  have rest: "\<forall>i<length ms. \<exists>e. call (Suc n + i) (ms ! i) prompt = Inl e"
  proof (intro allI impI)
    fix i assume "i < length ms"
    then have "Suc i < length (m # ms)" by simp
    with Cons.prems have "\<exists>e. call (n + Suc i) ((m # ms) ! Suc i) prompt = Inl e" by blast
    then show "\<exists>e. call (Suc n + i) (ms ! i) prompt = Inl e" by simp
  qed
  from Cons.IH [OF rest, of "Some e" "track_error L m"]
  obtain L' le where IH:
    "generate_loop call prompt (Suc n) ms (Some e) (track_error L m) = (Inl le, L', ms)"
    "ms = [] \<longrightarrow> le = Some e"
    "ms \<noteq> [] \<longrightarrow> (\<exists>e. le = Some e \<and> call (Suc n + (length ms - 1)) (last ms) prompt = Inl e)"
    "sum_values (error_count L') = sum_values (error_count (track_error L m)) + int (length ms)"
    "request_count L' = request_count (track_error L m)"
    "total_cost L' = total_cost (track_error L m)"
    by blast
  have last: "\<exists>e'. le = Some e' \<and> call (n + (length (m # ms) - 1)) (last (m # ms)) prompt = Inl e'"
  proof (cases "ms = []")
    case True
    with IH(2) e show ?thesis by simp
  next
    case False
    with IH(3) obtain e' where "le = Some e'"
      "call (Suc n + (length ms - 1)) (last ms) prompt = Inl e'" by blast
    moreover have "Suc n + (length ms - 1) = n + (length (m # ms) - 1)"
      using False by (cases ms) simp_all
    ultimately show ?thesis using False by (simp del: One_nat_def add_Suc)
  qed
  show ?case
    using e IH(1,4,5,6) last by (simp add: track_error_fields)
qed




section \<open>The join and the fallback loop of \<open>process_task\<close>\<close>

lemma fold_slots:
  assumes "length slots = length outs"
  shows "length (fold (\<lambda>i slots. if i < length outs then slots[i := Some (outs ! i)] else slots)
                      order slots) = length outs
       \<and> (\<forall>j<length outs.
             fold (\<lambda>i slots. if i < length outs then slots[i := Some (outs ! i)] else slots)
                  order slots ! j
             = (if j \<in> set order then Some (outs ! j) else slots ! j))"
  using assms
proof (induction order arbitrary: slots)
  case Nil
  then show ?case by simp
next
  case (Cons i order)
  let ?s = "if i < length outs then slots[i := Some (outs ! i)] else slots"
  have len: "length ?s = length outs" using Cons.prems by simp
  have nth: "\<And>j. j < length outs \<Longrightarrow> ?s ! j = (if j = i then Some (outs ! j) else slots ! j)"
    using Cons.prems by (simp add: nth_list_update)
  from Cons.IH [OF len] nth show ?case by auto
qed

lemma those_map_Some: "those (map Some xs) = Some xs"
  by (induction xs) simp_all

lemma those_None: "None \<in> set xs \<Longrightarrow> those xs = None"
  by (induction xs) (auto split: option.splits)

lemma gather_eq:
  "gather order outs = (if {..<length outs} \<subseteq> set order then Some outs else None)"
proof -
  let ?F = "fold (\<lambda>i slots. if i < length outs then slots[i := Some (outs ! i)] else slots)
                 order (replicate (length outs) None)"
  have F: "length ?F = length outs"
    "\<And>j. j < length outs \<Longrightarrow> ?F ! j = (if j \<in> set order then Some (outs ! j) else None)"
    using fold_slots [of "replicate (length outs) None" outs order] by simp_all
  show ?thesis
  proof (cases "{..<length outs} \<subseteq> set order")
    case True
    have "?F = map Some outs"
    proof (rule nth_equalityI)
      show "length ?F = length (map Some outs)" using F(1) by simp
    next
      fix j assume "j < length ?F"
      then have j: "j < length outs" using F(1) by simp
      with True have "j \<in> set order" by auto
      with F(2) [OF j] j show "?F ! j = map Some outs ! j" by simp
    qed
    with True show ?thesis by (simp add: gather_def those_map_Some)
  next
    case False
    then obtain j where j: "j < length outs" "j \<notin> set order" by auto
    with F(2) [OF j(1)] have "?F ! j = None" by simp
    moreover have "?F ! j \<in> set ?F" using j(1) F(1) by (intro nth_mem) simp
    ultimately have "None \<in> set ?F" by simp
    then have "those ?F = None" by (rule those_None)
    with False show ?thesis by (simp add: gather_def)
  qed
qed

lemma fallback_loop_all_fail:
  assumes "\<forall>i<length ms. \<exists>e. call (n + i) (ms ! i) = Inl e"
  shows "fallback_loop call n ms = (None, ms)"
  using assms
proof (induction ms arbitrary: n)
  case Nil
  then show ?case by simp
next
  case (Cons m ms)
  from Cons.prems have "\<exists>e. call (n + 0) ((m # ms) ! 0) = Inl e" by blast
  then obtain e where e: "call n m = Inl e" by auto
  have "\<forall>i<length ms. \<exists>e. call (Suc n + i) (ms ! i) = Inl e"
  proof (intro allI impI)
    fix i assume "i < length ms"
    then have "Suc i < length (m # ms)" by simp
    with Cons.prems have "\<exists>e. call (n + Suc i) ((m # ms) ! Suc i) = Inl e" by blast
    then show "\<exists>e. call (Suc n + i) (ms ! i) = Inl e" by simp
  qed
  from Cons.IH [OF this] e show ?case by simp
qed

lemma fallback_loop_result:
  assumes "fallback_loop call n ms = (Some r, tried)"
  shows "\<exists>pre m rest. ms = pre @ m # rest \<and> tried = pre @ [m]
           \<and> call (n + length pre) m = Inr r \<and> success r"
  using assms
proof (induction ms arbitrary: n tried)
  case Nil
  then show ?case by simp
next
  case (Cons m ms)
  show ?case
  proof (cases "\<exists>r'. call n m = Inr r' \<and> success r'")
    case True
    then obtain r' where r': "call n m = Inr r'" "success r'" by blast
    with Cons.prems have "r = r'" "tried = [m]" by simp_all
    with r' show ?thesis
      by (intro exI [of _ "[]"] exI [of _ m] exI [of _ ms]) simp
  next
    case False
    with Cons.prems obtain tried' where
      loop: "fallback_loop call (Suc n) ms = (Some r, tried')" and t: "tried = m # tried'"
      by (auto split: sum.splits if_splits prod.splits)
    from Cons.IH [OF loop] obtain pre m' rest where
      "ms = pre @ m' # rest" "tried' = pre @ [m']"
      "call (Suc n + length pre) m' = Inr r" "success r" by blast
    with t show ?thesis
      by (intro exI [of _ "m # pre"] exI [of _ m'] exI [of _ rest]) simp
  qed
qed

lemma fallback_loop_tried:
  "\<exists>k\<le>length ms. snd (fallback_loop call n ms) = take k ms"
proof (induction ms arbitrary: n)
  case Nil
  then show ?case by simp
next
  case (Cons m ms)
  from Cons.IH [of "Suc n"] obtain k where k: "k \<le> length ms"
    "snd (fallback_loop call (Suc n) ms) = take k ms" by blast
  have cont: "snd (case fallback_loop call (Suc n) ms of (r, tried) \<Rightarrow> (r, m # tried))
                = take (Suc k) (m # ms)"
    using k(2) by (cases "fallback_loop call (Suc n) ms") simp
  have "snd (fallback_loop call n (m # ms)) = take 1 (m # ms)
      \<or> snd (fallback_loop call n (m # ms)) = take (Suc k) (m # ms)"
  proof (cases "call n m")
    case (Inl e)
    with cont show ?thesis by simp
  next
    case (Inr r)
    with cont show ?thesis by (cases "success r") simp_all
  qed
  then show ?case
  proof
    assume "snd (fallback_loop call n (m # ms)) = take 1 (m # ms)"
    then show ?thesis by (intro exI [of _ 1]) simp
  next
    assume "snd (fallback_loop call n (m # ms)) = take (Suc k) (m # ms)"
    with k(1) show ?thesis by (intro exI [of _ "Suc k"]) simp
  qed
qed

lemma max_confidence_mem: "max_confidence b xs \<in> set (b # xs)"
  by (induction xs arbitrary: b) auto

lemma valid_responses_set:
  "r \<in> set (valid_responses outs) \<longleftrightarrow> Inr r \<in> set outs \<and> success r"
  by (induction outs rule: valid_responses.induct) auto

lemma list2: "length models > 1 \<Longrightarrow> \<exists>m0 m1 ms. models = m0 # m1 # ms"
  by (cases models; cases "tl models") auto

lemma process_task_parallel:
  assumes "routing tt = Some (m0 # m1 # ms)"
  shows "process_task routing lib api tokens order tt True =
     (if {0, 1} \<subseteq> set order then
        (case valid_responses [call_model lib api tokens tt 0 m0,
                               call_model lib api tokens tt 1 m1] of
           v # vs \<Rightarrow> Some (Inr (max_confidence v vs), [m0, m1])
         | [] \<Rightarrow> Some (case call_model lib api tokens tt 2 m0 of
                         Inr rsp \<Rightarrow> Inr rsp
                       | Inl e \<Rightarrow> except_handler tt e,
                       [m0, m1, m0]))
      else None)"
proof -
  have set2: "{..<Suc (Suc 0)} = {0, Suc 0}" by auto
  show ?thesis
    using assms
    by (simp add: process_task_def try_body_def gather_eq set2 Let_def numeral_2_eq_2
             split: list.splits sum.splits)
qed

lemma process_task_sequential:
  assumes "models = (case routing tt of None \<Rightarrow> [CLAUDE_SONNET] | Some ms \<Rightarrow> ms)"
    and "\<not> (use_parallel \<and> length models > 1)"
  shows "process_task routing lib api tokens order tt use_parallel =
     (case fallback_loop (call_model lib api tokens tt) 0 models of
        (Some rsp, tried) \<Rightarrow> Some (Inr rsp, tried)
      | (None, tried) \<Rightarrow>
          Some (case loop_exhausted tt models of
                  Inr rsp \<Rightarrow> Inr rsp
                | Inl e \<Rightarrow> except_handler tt e, tried))"
  using assms
  by (auto simp add: process_task_def try_body_def Let_def split: prod.splits option.splits sum.splits)

lemma call_model_result:
  assumes "call_model lib api tokens tt n m = Inr r"
  shows "success r \<and> (\<exists>res. result r = Some res \<and> calculate_confidence lib res = Inr (confidence r))"
  using assms by (auto simp: call_model_def split: sum.splits)

lemma call_model_plain: "\<exists>e. call_model lib api tokens (Plain s) n m = Inl e"
  by (auto simp: call_model_def task_type_value_def split: sum.splits)

lemma process_task_response:
  assumes "process_task routing lib api tokens order tt up = Some (Inr r, called)"
  shows "(\<exists>t e. r = orchestration_error t e) \<or> (\<exists>t m. r = all_models_failed t m)
       \<or> (\<exists>n m. call_model lib api tokens tt n m = Inr r)"
proof -
  define models where "models = (case routing tt of None \<Rightarrow> [CLAUDE_SONNET] | Some ms \<Rightarrow> ms)"
  have handler: "except_handler tt e = Inr r \<Longrightarrow> \<exists>t e. r = orchestration_error t e" for e
    by (cases tt) (auto simp: except_handler_def)
  show ?thesis
  proof (cases "up \<and> length models > 1")
    case True
    then obtain m0 m1 ms where ms: "models = m0 # m1 # ms" using list2 by blast
    with True have rt: "routing tt = Some (m0 # m1 # ms)"
      by (auto simp: models_def split: option.splits)
    let ?outs = "[call_model lib api tokens tt 0 m0, call_model lib api tokens tt 1 m1]"
    show ?thesis
    proof (cases "valid_responses ?outs")
      case Nil
      with assms True rt have "(case call_model lib api tokens tt 2 m0 of
                         Inr rsp \<Rightarrow> Inr rsp | Inl e \<Rightarrow> except_handler tt e) = Inr r"
        using process_task_parallel [of routing tt m0 m1 ms lib api tokens order]
        by (simp split: if_splits)
      then show ?thesis
        using handler by (cases "call_model lib api tokens tt 2 m0") auto
    next
      case (Cons v vs)
      with assms True rt have "r = max_confidence v vs"
        using process_task_parallel [of routing tt m0 m1 ms lib api tokens order]
        by (simp split: if_splits)
      then have "r \<in> set (valid_responses ?outs)"
        using max_confidence_mem [of v vs] Cons by simp
      then have "Inr r \<in> set ?outs" by (simp only: valid_responses_set)
      then have "call_model lib api tokens tt 0 m0 = Inr r \<or> call_model lib api tokens tt 1 m1 = Inr r"
        by auto
      then show ?thesis by blast
    qed
  next
    case False
    have seq: "process_task routing lib api tokens order tt up =
     (case fallback_loop (call_model lib api tokens tt) 0 models of
        (Some rsp, tried) \<Rightarrow> Some (Inr rsp, tried)
      | (None, tried) \<Rightarrow>
          Some (case loop_exhausted tt models of
                  Inr rsp \<Rightarrow> Inr rsp
                | Inl e \<Rightarrow> except_handler tt e, tried))"
      using models_def False by (rule process_task_sequential)
    show ?thesis
    proof (cases "fallback_loop (call_model lib api tokens tt) 0 models")
      case (Pair ro tried)
      show ?thesis
      proof (cases ro)
        case None
        with assms seq Pair have h: "(case loop_exhausted tt models of
                  Inr rsp \<Rightarrow> Inr rsp | Inl e \<Rightarrow> except_handler tt e) = Inr r" by simp
        show ?thesis
        proof (cases "loop_exhausted tt models")
          case (Inl e)
          with h handler show ?thesis by auto
        next
          case (Inr r')
          with h have "r' = r" by simp
          with Inr have "\<exists>t m. r = all_models_failed t m"
            by (auto simp: loop_exhausted_def split: list.splits enum_arg.splits)
          then show ?thesis by blast
        qed
      next
        case (Some r')
        with assms seq Pair have "r' = r" by simp
        with Some Pair fallback_loop_result [of "call_model lib api tokens tt" 0 models r tried]
        show ?thesis by blast
      qed
    qed
  qed
qed

lemmas json_str_simps =
  json_str_def py_in_def py_find_def py_slice_def py_strip_def is_space_def Let_def

lemma js1: "json_str ''{}'' = ''{}''" by (simp add: json_str_simps)
lemma js2: "json_str ''{\"confidence\": 5}'' = ''{\"confidence\": 5}''" by (simp add: json_str_simps)
lemma js3: "json_str ''{\"confidence\": 0.6}'' = ''{\"confidence\": 0.6}''" by (simp add: json_str_simps)
lemma js4: "json_str ''{\"confidence\": 0.9}'' = ''{\"confidence\": 0.9}''" by (simp add: json_str_simps)
lemma js5: "json_str ''[1, 2]'' = ''[1, 2]''" by (simp add: json_str_simps)
lemma js6: "json_str ''{\"parsed\": false}'' = ''{\"parsed\": false}''" by (simp add: json_str_simps)
lemma js7: "json_str ''{\"confidence\": NaN}'' = ''{\"confidence\": NaN}''" by (simp add: json_str_simps)

lemma js8: "json_str ''{\"overall_sentiment\": {\"confidence\": 0.7}}''
             = ''{\"overall_sentiment\": {\"confidence\": 0.7}}''"
  by (simp add: json_str_simps)

lemma float_of_int_5: "float_of_int 5 = Inr (Fin 5)"
  by (simp add: float_of_int_def round_to_53_def bit_length.simps)

lemmas example_simps =
  call_model_def parse_response_def sample_lib_def sample_loads_def js1 js2 js3 js4 js5 js6 js7 js8
  calculate_confidence_def default_confidence_def orchestration_error_def all_models_failed_def
  task_type_value_def except_handler_def loop_exhausted_def model_routing_def enum_dict_get_def
  TaskType_members_def float_of_int_5

lemma routing_action: "model_routing (Member ACTION_EXTRACTION) = Some [CLAUDE_SONNET, GPT4_TURBO]"
  by (simp add: model_routing_def enum_dict_get_def)

lemma routing_sentiment:
  "model_routing (Member SENTIMENT_ANALYSIS) = Some [CLAUDE_SONNET, GPT4_TURBO, GEMINI_PRO]"
  by (simp add: model_routing_def enum_dict_get_def)

lemma routing_transcription: "model_routing (Member TRANSCRIPTION) = Some [GPT4_TURBO]"
  by (simp add: model_routing_def enum_dict_get_def)

lemma routing_unknown: "model_routing (Plain ''code_generation'') = None"
  by (simp add: model_routing_def enum_dict_get_def TaskType_members_def)

section \<open>Parallel consensus\<close>

lemma py_gt_trichotomy:
  "a \<noteq> NaN \<Longrightarrow> b \<noteq> NaN \<Longrightarrow> py_gt a b \<or> a = b \<or> py_gt b a"
  by (cases a; cases b) auto

lemma py_gt_asym: "py_gt a b \<Longrightarrow> \<not> py_gt b a"
  by (cases a; cases b) auto

lemma py_gt_irrefl: "\<not> py_gt a a"
  by (cases a) auto

lemma parallel_two_successes:
  assumes "routing tt = Some (m0 # m1 # ms)" "{0, 1} \<subseteq> set order"
    and "call_model lib api tokens tt 0 m0 = Inr r0" "call_model lib api tokens tt 1 m1 = Inr r1"
  shows "process_task routing lib api tokens order tt True
           = Some (Inr (if py_gt (confidence r1) (confidence r0) then r1 else r0), [m0, m1])"
proof -
  have "success r0" "success r1"
    using assms(3,4) call_model_result by blast+
  then show ?thesis
    using process_task_parallel [of routing tt m0 m1 ms lib api tokens order] assms
    by simp
qed

text \<open>
  Claim C1, as amended. Let the task type be routed to more than one model and the
  request take the parallel path. \<^const>\<open>process_task\<close> has a result only once both raced calls,
  to the first two models of the routing list, have completed; these two models are the
  ones called. When both calls succeed with confidences that are not NaN, exactly the
  usual three cases arise (the first confidence is greater, the two are equal, the second
  is greater): the outcome of the first call is returned in the first two, so that a tie
  goes to the model ranked earlier, and the outcome of the second call in the third. When
  only one of the calls succeeds, its outcome is returned. The result is the same for
  every order in which the two calls complete.
\<close>

theorem parallel_consensus_decision:
  assumes "routing tt = Some models" and "length models > 1" and "{0, 1} \<subseteq> set order"
  shows "(\<forall>r0 r1. call_model lib api tokens tt 0 (models ! 0) = Inr r0
              \<and> call_model lib api tokens tt 1 (models ! 1) = Inr r1
              \<and> confidence r0 \<noteq> NaN \<and> confidence r1 \<noteq> NaN
            \<longrightarrow> (py_gt (confidence r0) (confidence r1) \<or> confidence r0 = confidence r1
                   \<or> py_gt (confidence r1) (confidence r0))
              \<and> (py_gt (confidence r0) (confidence r1) \<or> confidence r0 = confidence r1
                   \<longrightarrow> process_task routing lib api tokens order tt True
                         = Some (Inr r0, take 2 models))
              \<and> (py_gt (confidence r1) (confidence r0)
                   \<longrightarrow> process_task routing lib api tokens order tt True
                         = Some (Inr r1, take 2 models)))
       \<and> (\<forall>r0 e. call_model lib api tokens tt 0 (models ! 0) = Inr r0
              \<and> call_model lib api tokens tt 1 (models ! 1) = Inl e
            \<longrightarrow> process_task routing lib api tokens order tt True
                  = Some (Inr r0, take 2 models))
       \<and> (\<forall>e r1. call_model lib api tokens tt 0 (models ! 0) = Inl e
              \<and> call_model lib api tokens tt 1 (models ! 1) = Inr r1
            \<longrightarrow> process_task routing lib api tokens order tt True
                  = Some (Inr r1, take 2 models))
       \<and> (\<forall>order'. {0, 1} \<subseteq> set order' \<longrightarrow>
             process_task routing lib api tokens order' tt True
               = process_task routing lib api tokens order tt True)
       \<and> (\<forall>order'. \<not> {0, 1} \<subseteq> set order' \<longrightarrow>
             process_task routing lib api tokens order' tt True = None)"
proof -
  from assms(2) obtain m0 m1 ms where models: "models = m0 # m1 # ms"
    using list2 by blast
  have rt: "routing tt = Some (m0 # m1 # ms)" using assms(1) models by simp
  have nth: "models ! 0 = m0" "models ! 1 = m1" "take 2 models = [m0, m1]"
    by (simp_all add: models numeral_2_eq_2)
  note par = process_task_parallel [of routing tt m0 m1 ms lib api tokens]
  have both: "process_task routing lib api tokens order tt True
           = Some (Inr (if py_gt (confidence r1) (confidence r0) then r1 else r0), [m0, m1])"
    if "call_model lib api tokens tt 0 m0 = Inr r0" "call_model lib api tokens tt 1 m1 = Inr r1"
    for r0 r1
    using rt assms(3) that by (rule parallel_two_successes)
  have first: "process_task routing lib api tokens order tt True = Some (Inr r0, [m0, m1])"
    if "call_model lib api tokens tt 0 m0 = Inr r0" "call_model lib api tokens tt 1 m1 = Inl e"
    for r0 e
  proof -
    have "success r0" using that(1) call_model_result by blast
    then show ?thesis using par [of order, OF rt] assms(3) that by simp
  qed
  have second: "process_task routing lib api tokens order tt True = Some (Inr r1, [m0, m1])"
    if "call_model lib api tokens tt 0 m0 = Inl e" "call_model lib api tokens tt 1 m1 = Inr r1"
    for r1 e
  proof -
    have "success r1" using that(2) call_model_result by blast
    then show ?thesis using par [of order, OF rt] assms(3) that by simp
  qed
  have same: "process_task routing lib api tokens order' tt True
               = process_task routing lib api tokens order tt True"
    if "{0, 1} \<subseteq> set order'" for order'
    using par [of order', OF rt] par [of order, OF rt] assms(3) that by simp
  have waits: "process_task routing lib api tokens order' tt True = None"
    if "\<not> {0, 1} \<subseteq> set order'" for order'
    using par [of order', OF rt] that by auto
  show ?thesis
    unfolding nth
  proof (intro conjI allI impI)
    fix r0 r1
    assume a: "call_model lib api tokens tt 0 m0 = Inr r0
                \<and> call_model lib api tokens tt 1 m1 = Inr r1
                \<and> confidence r0 \<noteq> NaN \<and> confidence r1 \<noteq> NaN"
    then show "py_gt (confidence r0) (confidence r1) \<or> confidence r0 = confidence r1
                   \<or> py_gt (confidence r1) (confidence r0)"
      using py_gt_trichotomy by blast
    {
      assume "py_gt (confidence r0) (confidence r1) \<or> confidence r0 = confidence r1"
      then have "\<not> py_gt (confidence r1) (confidence r0)"
        using py_gt_asym py_gt_irrefl by metis
      with both [of r0 r1] a
      show "process_task routing lib api tokens order tt True = Some (Inr r0, [m0, m1])"
        by simp
    }
    {
      assume "py_gt (confidence r1) (confidence r0)"
      with both [of r0 r1] a
      show "process_task routing lib api tokens order tt True = Some (Inr r1, [m0, m1])"
        by simp
    }
  next
    fix r0 e
    assume "call_model lib api tokens tt 0 m0 = Inr r0
              \<and> call_model lib api tokens tt 1 m1 = Inl e"
    then show "process_task routing lib api tokens order tt True = Some (Inr r0, [m0, m1])"
      using first by blast
  next
    fix e r1
    assume "call_model lib api tokens tt 0 m0 = Inl e
              \<and> call_model lib api tokens tt 1 m1 = Inr r1"
    then show "process_task routing lib api tokens order tt True = Some (Inr r1, [m0, m1])"
      using second by blast
  next
    fix order' :: "nat list" assume "{0, 1} \<subseteq> set order'"
    then show "process_task routing lib api tokens order' tt True
               = process_task routing lib api tokens order tt True" by (rule same)
  next
    fix order' :: "nat list" assume "\<not> {0, 1} \<subseteq> set order'"
    then show "process_task routing lib api tokens order' tt True = None" by (rule waits)
  qed
qed

text \<open>
  With the routing of action extraction (Claude Sonnet, then GPT-4 Turbo): when both
  answer with confidence 0.9, the outcome of Claude Sonnet, which is ranked first, is
  returned although the call to GPT-4 Turbo completed first; when they answer with 0.6
  and 0.9, the outcome of GPT-4 Turbo is returned, in either order of completion; and
  while only the second call has completed there is no result.
\<close>

theorem parallel_consensus_example:
  "model_routing (Member ACTION_EXTRACTION) = Some [CLAUDE_SONNET, GPT4_TURBO]
   \<and> {0, 1} \<subseteq> set [1, 0 :: nat]
   \<and> process_task model_routing sample_lib api_tie 7 [1, 0] (Member ACTION_EXTRACTION) True
     = Some (Inr \<lparr>success = True, model = ''claude-3-5-sonnet-20241022'',
                  task_type = ''action_extraction'',
                  result = Some (JObject [(''confidence'', JFloat (Fin 0.9))]),
                  confidence = Fin 0.9, tokens_used = 7, error = None\<rparr>,
             [CLAUDE_SONNET, GPT4_TURBO])
   \<and> call_model sample_lib api_tie 7 (Member ACTION_EXTRACTION) 1 GPT4_TURBO
     = Inr \<lparr>success = True, model = ''gpt-4-turbo-preview'', task_type = ''action_extraction'',
            result = Some (JObject [(''confidence'', JFloat (Fin 0.9))]),
            confidence = Fin 0.9, tokens_used = 7, error = None\<rparr>
   \<and> process_task model_routing sample_lib api_two_answers 7 [1, 0] (Member ACTION_EXTRACTION) True
     = Some (Inr \<lparr>success = True, model = ''gpt-4-turbo-preview'',
                  task_type = ''action_extraction'',
                  result = Some (JObject [(''confidence'', JFloat (Fin 0.9))]),
                  confidence = Fin 0.9, tokens_used = 7, error = None\<rparr>,
             [CLAUDE_SONNET, GPT4_TURBO])
   \<and> process_task model_routing sample_lib api_two_answers 7 [0, 1] (Member ACTION_EXTRACTION) True
     = process_task model_routing sample_lib api_two_answers 7 [1, 0] (Member ACTION_EXTRACTION) True
   \<and> process_task model_routing sample_lib api_two_answers 7 [1] (Member ACTION_EXTRACTION) True
     = None"
proof -
  let ?sonnet = "\<lambda>c. \<lparr>success = True, model = ''claude-3-5-sonnet-20241022'',
                  task_type = ''action_extraction'',
                  result = Some (JObject [(''confidence'', JFloat (Fin c))]),
                  confidence = Fin c, tokens_used = 7, error = None\<rparr>"
  let ?gpt = "\<lambda>c. \<lparr>success = True, model = ''gpt-4-turbo-preview'',
                  task_type = ''action_extraction'',
                  result = Some (JObject [(''confidence'', JFloat (Fin c))]),
                  confidence = Fin c, tokens_used = 7, error = None\<rparr>"
  have l: "length [CLAUDE_SONNET, GPT4_TURBO] > 1" by simp
  have o: "{0, 1} \<subseteq> set [1, 0 :: nat]" by simp
  have t0: "call_model sample_lib api_tie 7 (Member ACTION_EXTRACTION) 0
              ([CLAUDE_SONNET, GPT4_TURBO] ! 0) = Inr (?sonnet 0.9)"
    by (simp add: example_simps api_tie_def)
  have t1: "call_model sample_lib api_tie 7 (Member ACTION_EXTRACTION) 1
              ([CLAUDE_SONNET, GPT4_TURBO] ! 1) = Inr (?gpt 0.9)"
    by (simp add: example_simps api_tie_def)
  have a0: "call_model sample_lib api_two_answers 7 (Member ACTION_EXTRACTION) 0
              ([CLAUDE_SONNET, GPT4_TURBO] ! 0) = Inr (?sonnet 0.6)"
    by (simp add: example_simps api_two_answers_def)
  have a1: "call_model sample_lib api_two_answers 7 (Member ACTION_EXTRACTION) 1
              ([CLAUDE_SONNET, GPT4_TURBO] ! 1) = Inr (?gpt 0.9)"
    by (simp add: example_simps api_two_answers_def)
  note tie = parallel_consensus_decision
    [of model_routing "Member ACTION_EXTRACTION" "[CLAUDE_SONNET, GPT4_TURBO]" "[1, 0]"
        sample_lib api_tie 7, OF routing_action l o]
  note two = parallel_consensus_decision
    [of model_routing "Member ACTION_EXTRACTION" "[CLAUDE_SONNET, GPT4_TURBO]" "[1, 0]"
        sample_lib api_two_answers 7, OF routing_action l o]
  from tie have "call_model sample_lib api_tie 7 (Member ACTION_EXTRACTION) 0
                   ([CLAUDE_SONNET, GPT4_TURBO] ! 0) = Inr (?sonnet 0.9)
               \<and> call_model sample_lib api_tie 7 (Member ACTION_EXTRACTION) 1
                   ([CLAUDE_SONNET, GPT4_TURBO] ! 1) = Inr (?gpt 0.9)
               \<and> confidence (?sonnet 0.9) \<noteq> NaN \<and> confidence (?gpt 0.9) \<noteq> NaN
            \<longrightarrow> (py_gt (confidence (?sonnet 0.9)) (confidence (?gpt 0.9))
                    \<or> confidence (?sonnet 0.9) = confidence (?gpt 0.9)
                   \<longrightarrow> process_task model_routing sample_lib api_tie 7 [1, 0]
                         (Member ACTION_EXTRACTION) True
                         = Some (Inr (?sonnet 0.9), take 2 [CLAUDE_SONNET, GPT4_TURBO]))"
    by blast
  with t0 t1 have r1: "process_task model_routing sample_lib api_tie 7 [1, 0]
                         (Member ACTION_EXTRACTION) True
                         = Some (Inr (?sonnet 0.9), [CLAUDE_SONNET, GPT4_TURBO])"
    by simp
  from two have "call_model sample_lib api_two_answers 7 (Member ACTION_EXTRACTION) 0
                   ([CLAUDE_SONNET, GPT4_TURBO] ! 0) = Inr (?sonnet 0.6)
               \<and> call_model sample_lib api_two_answers 7 (Member ACTION_EXTRACTION) 1
                   ([CLAUDE_SONNET, GPT4_TURBO] ! 1) = Inr (?gpt 0.9)
               \<and> confidence (?sonnet 0.6) \<noteq> NaN \<and> confidence (?gpt 0.9) \<noteq> NaN
            \<longrightarrow> (py_gt (confidence (?gpt 0.9)) (confidence (?sonnet 0.6))
                   \<longrightarrow> process_task model_routing sample_lib api_two_answers 7 [1, 0]
                         (Member ACTION_EXTRACTION) True
                         = Some (Inr (?gpt 0.9), take 2 [CLAUDE_SONNET, GPT4_TURBO]))"
    by blast
  with a0 a1 have r2: "process_task model_routing sample_lib api_two_answers 7 [1, 0]
                         (Member ACTION_EXTRACTION) True
                         = Some (Inr (?gpt 0.9), [CLAUDE_SONNET, GPT4_TURBO])"
    by simp
  from two have any: "\<forall>order'. {0, 1} \<subseteq> set order' \<longrightarrow>
       process_task model_routing sample_lib api_two_answers 7 order' (Member ACTION_EXTRACTION) True
         = process_task model_routing sample_lib api_two_answers 7 [1, 0] (Member ACTION_EXTRACTION) True"
    and none: "\<forall>order'. \<not> {0, 1} \<subseteq> set order' \<longrightarrow>
       process_task model_routing sample_lib api_two_answers 7 order' (Member ACTION_EXTRACTION) True
         = None"
    by blast+
  have r3: "process_task model_routing sample_lib api_two_answers 7 [0, 1] (Member ACTION_EXTRACTION) True
     = process_task model_routing sample_lib api_two_answers 7 [1, 0] (Member ACTION_EXTRACTION) True"
    using any [rule_format, of "[0, 1]"] by simp
  have r4: "process_task model_routing sample_lib api_two_answers 7 [1] (Member ACTION_EXTRACTION) True
     = None"
    using none [rule_format, of "[1]"] by simp
  from routing_action o r1 t1 r2 r3 r4 show ?thesis by simp
qed

text \<open>
  The claim as stated fails: \<^verbatim>\<open>json.loads\<close> accepts the literal \<^verbatim>\<open>NaN\<close>, and when Claude
  Sonnet answers with a NaN confidence and GPT-4 Turbo with 0.9, the outcome with the NaN
  confidence is returned: no comparison with NaN holds, so \<^verbatim>\<open>max\<close> keeps its first
  element.
\<close>

theorem nan_confidence_wins_over_higher:
  "process_task model_routing sample_lib api_nan_first 7 [0, 1] (Member ACTION_EXTRACTION) True
     = Some (Inr \<lparr>success = True, model = ''claude-3-5-sonnet-20241022'',
                  task_type = ''action_extraction'',
                  result = Some (JObject [(''confidence'', JFloat NaN)]),
                  confidence = NaN, tokens_used = 7, error = None\<rparr>,
             [CLAUDE_SONNET, GPT4_TURBO])
   \<and> call_model sample_lib api_nan_first 7 (Member ACTION_EXTRACTION) 1 GPT4_TURBO
     = Inr \<lparr>success = True, model = ''gpt-4-turbo-preview'', task_type = ''action_extraction'',
            result = Some (JObject [(''confidence'', JFloat (Fin 0.9))]),
            confidence = Fin 0.9, tokens_used = 7, error = None\<rparr>"
proof -
  have c0: "call_model sample_lib api_nan_first 7 (Member ACTION_EXTRACTION) 0 CLAUDE_SONNET
     = Inr \<lparr>success = True, model = ''claude-3-5-sonnet-20241022'',
            task_type = ''action_extraction'',
            result = Some (JObject [(''confidence'', JFloat NaN)]),
            confidence = NaN, tokens_used = 7, error = None\<rparr>"
    by (simp add: example_simps api_nan_first_def)
  have c1: "call_model sample_lib api_nan_first 7 (Member ACTION_EXTRACTION) 1 GPT4_TURBO
     = Inr \<lparr>success = True, model = ''gpt-4-turbo-preview'', task_type = ''action_extraction'',
            result = Some (JObject [(''confidence'', JFloat (Fin 0.9))]),
            confidence = Fin 0.9, tokens_used = 7, error = None\<rparr>"
    by (simp add: example_simps api_nan_first_def)
  have "process_task model_routing sample_lib api_nan_first 7 [0, 1] (Member ACTION_EXTRACTION) True
     = Some (Inr \<lparr>success = True, model = ''claude-3-5-sonnet-20241022'',
                  task_type = ''action_extraction'',
                  result = Some (JObject [(''confidence'', JFloat NaN)]),
                  confidence = NaN, tokens_used = 7, error = None\<rparr>,
             [CLAUDE_SONNET, GPT4_TURBO])"
    using process_task_parallel
      [of model_routing "Member ACTION_EXTRACTION" CLAUDE_SONNET GPT4_TURBO "[]"
          sample_lib api_nan_first 7 "[0, 1]", OF routing_action]
    using c0 c1 by simp
  with c1 show ?thesis by simp
qed

text \<open>
  Claim C2, as amended. When both raced calls finish and neither succeeds,
  \<^const>\<open>process_task\<close> makes exactly one more call, to the first model of the routing list,
  and returns its outcome; if that call raises, the request ends in the outer exception
  handler, which for a member of \<^verbatim>\<open>TaskType\<close> returns its failure response (and for an
  argument that is no member raises \<^verbatim>\<open>AttributeError\<close>). Three calls are issued in all, to
  the first, the second and again the first model.
\<close>

theorem parallel_fallback_single_retry:
  assumes "routing tt = Some models" and "length models > 1" and "{0, 1} \<subseteq> set order"
    and "valid_responses [call_model lib api tokens tt 0 (models ! 0),
                          call_model lib api tokens tt 1 (models ! 1)] = []"
  shows "process_task routing lib api tokens order tt True =
           Some (case call_model lib api tokens tt 2 (models ! 0) of
                   Inr rsp \<Rightarrow> Inr rsp
                 | Inl e \<Rightarrow> (case tt of
                               Member t \<Rightarrow> Inr (orchestration_error t e)
                             | Plain s \<Rightarrow> Inl AttributeError),
                 [models ! 0, models ! 1, models ! 0])"
proof -
  from assms(2) obtain m0 m1 ms where models: "models = m0 # m1 # ms"
    using list2 by blast
  show ?thesis
    using process_task_parallel [of routing tt m0 m1 ms lib api tokens order] assms(1,3,4)
    by (simp add: models except_handler_def split: sum.splits)
qed

text \<open>
  With the routing of action extraction and every provider timing out, the request ends
  with the response of the outer handler after calls to Claude Sonnet, GPT-4 Turbo and
  Claude Sonnet again.
\<close>

theorem parallel_fallback_example:
  "model_routing (Member ACTION_EXTRACTION) = Some [CLAUDE_SONNET, GPT4_TURBO]
   \<and> {0, 1} \<subseteq> set [0, 1 :: nat]
   \<and> valid_responses
        [call_model sample_lib api_down 7 (Member ACTION_EXTRACTION) 0 CLAUDE_SONNET,
         call_model sample_lib api_down 7 (Member ACTION_EXTRACTION) 1 GPT4_TURBO] = []
   \<and> process_task model_routing sample_lib api_down 7 [0, 1] (Member ACTION_EXTRACTION) True
     = Some (Inr (orchestration_error ACTION_EXTRACTION (ProviderError ''timeout'')),
             [CLAUDE_SONNET, GPT4_TURBO, CLAUDE_SONNET])"
proof -
  have l: "length [CLAUDE_SONNET, GPT4_TURBO] > 1" by simp
  have o: "{0, 1} \<subseteq> set [0, 1 :: nat]" by simp
  have v: "valid_responses
             [call_model sample_lib api_down 7 (Member ACTION_EXTRACTION) 0 ([CLAUDE_SONNET, GPT4_TURBO] ! 0),
              call_model sample_lib api_down 7 (Member ACTION_EXTRACTION) 1 ([CLAUDE_SONNET, GPT4_TURBO] ! 1)]
           = []"
    by (simp add: call_model_def api_down_def)
  from parallel_fallback_single_retry
         [of model_routing "Member ACTION_EXTRACTION" "[CLAUDE_SONNET, GPT4_TURBO]" "[0, 1]"
             sample_lib api_down 7, OF routing_action l o v] routing_action o v
  show ?thesis
    by (simp add: call_model_def api_down_def)
qed

text \<open>
  The claim as stated fails: with three models routed, of which only the third
  would answer, the parallel request fails without ever calling the third model, while
  the sequential request on the same providers reaches it and succeeds.
\<close>

theorem parallel_fallback_skips_third_candidate:
  "model_routing (Member SENTIMENT_ANALYSIS) = Some [CLAUDE_SONNET, GPT4_TURBO, GEMINI_PRO]
   \<and> process_task model_routing sample_lib api_only_gemini 7 [0, 1] (Member SENTIMENT_ANALYSIS) True
     = Some (Inr \<lparr>success = False, model = ''unknown'', task_type = ''sentiment_analysis'',
              result = None, confidence = Fin 0, tokens_used = 0,
              error = Some (StrOf (ProviderError ''timeout''))\<rparr>,
             [CLAUDE_SONNET, GPT4_TURBO, CLAUDE_SONNET])
   \<and> process_task model_routing sample_lib api_only_gemini 7 [0, 1] (Member SENTIMENT_ANALYSIS) False
     = Some (Inr \<lparr>success = True, model = ''gemini-1.5-pro'', task_type = ''sentiment_analysis'',
              result = Some (JObject []), confidence = Fin 0.85, tokens_used = 7, error = None\<rparr>,
             [CLAUDE_SONNET, GPT4_TURBO, GEMINI_PRO])"
proof -
  have par: "process_task model_routing sample_lib api_only_gemini 7 [0, 1] (Member SENTIMENT_ANALYSIS) True
     = Some (Inr \<lparr>success = False, model = ''unknown'', task_type = ''sentiment_analysis'',
              result = None, confidence = Fin 0, tokens_used = 0,
              error = Some (StrOf (ProviderError ''timeout''))\<rparr>,
             [CLAUDE_SONNET, GPT4_TURBO, CLAUDE_SONNET])"
    using process_task_parallel
          [of model_routing "Member SENTIMENT_ANALYSIS" CLAUDE_SONNET GPT4_TURBO "[GEMINI_PRO]"
              sample_lib api_only_gemini 7 "[0, 1]", OF routing_sentiment]
    by (simp add: call_model_def api_only_gemini_def orchestration_error_def except_handler_def)
  have seq: "process_task model_routing sample_lib api_only_gemini 7 [0, 1] (Member SENTIMENT_ANALYSIS) False
     = Some (Inr \<lparr>success = True, model = ''gemini-1.5-pro'', task_type = ''sentiment_analysis'',
              result = Some (JObject []), confidence = Fin 0.85, tokens_used = 7, error = None\<rparr>,
             [CLAUDE_SONNET, GPT4_TURBO, GEMINI_PRO])"
    by (simp add: process_task_def try_body_def example_simps api_only_gemini_def)
  from routing_sentiment par seq show ?thesis by simp
qed

section \<open>Exhausted candidates\<close>

text \<open>
  Claim C3, as amended. If every selected model fails, \<^const>\<open>generate\<close> raises its
  all-models-failed error, which carries the model type and the error of the last model
  called; every selected model has been called once, in order; the sum of the error
  counters has grown by exactly the number of models and neither the request counters
  nor the total cost have changed. \<^const>\<open>process_task\<close>, which keeps no ledger, raises
  nothing for a member of \<^verbatim>\<open>TaskType\<close> when every call of its sequential loop fails: it
  returns the response \<^const>\<open>all_models_failed\<close>, which names the first model and carries a
  fixed text.
\<close>

theorem all_candidates_failed:
  "(select_models registry model_type prefer_speed prefer_quality max_cost = models
      \<and> models \<noteq> []
      \<and> (\<forall>i<length models. \<exists>e. call i (models ! i) prompt = Inl e)
    \<longrightarrow> (\<exists>e L'. generate registry call L prompt model_type prefer_speed prefer_quality max_cost
                    = (Inl (AllModelsFailed model_type (Some e)), L', models)
              \<and> call (length models - 1) (last models) prompt = Inl e
              \<and> total_errors (get_stats L') = total_errors (get_stats L) + int (length models)
              \<and> total_requests (get_stats L') = total_requests (get_stats L)
              \<and> request_count L' = request_count L
              \<and> total_cost L' = total_cost L))
   \<and> (routing tt = Some (m0 # ms) \<and> (\<not> use_parallel \<or> ms = [])
      \<and> (\<forall>i<length (m0 # ms). \<exists>e. call_model lib api tokens tt i ((m0 # ms) ! i) = Inl e)
    \<longrightarrow> process_task routing lib api tokens order tt use_parallel
          = Some (case tt of
                    Member t \<Rightarrow> Inr (all_models_failed t m0)
                  | Plain s \<Rightarrow> Inl AttributeError, m0 # ms))"
proof (intro conjI impI)
  assume a: "select_models registry model_type prefer_speed prefer_quality max_cost = models
      \<and> models \<noteq> []
      \<and> (\<forall>i<length models. \<exists>e. call i (models ! i) prompt = Inl e)"
  then have fails: "\<forall>i<length models. \<exists>e. call (0 + i) (models ! i) prompt = Inl e" by simp
  from generate_loop_all_fail [of models call 0 prompt None L] fails a obtain L' e where
    loop: "generate_loop call prompt 0 models None L = (Inl (Some e), L', models)"
    and last: "call (0 + (length models - 1)) (last models) prompt = Inl e"
    and errs: "sum_values (error_count L') = sum_values (error_count L) + int (length models)"
    and reqs: "request_count L' = request_count L"
    and tc: "total_cost L' = total_cost L"
    by blast
  have gen: "generate registry call L prompt model_type prefer_speed prefer_quality max_cost
                    = (Inl (AllModelsFailed model_type (Some e)), L', models)"
    using a loop by (simp add: generate_def)
  show "\<exists>e L'. generate registry call L prompt model_type prefer_speed prefer_quality max_cost
                    = (Inl (AllModelsFailed model_type (Some e)), L', models)
              \<and> call (length models - 1) (last models) prompt = Inl e
              \<and> total_errors (get_stats L') = total_errors (get_stats L) + int (length models)
              \<and> total_requests (get_stats L') = total_requests (get_stats L)
              \<and> request_count L' = request_count L
              \<and> total_cost L' = total_cost L"
    apply (rule exI [of _ e], rule exI [of _ L'])
    using gen last errs reqs tc by (simp add: get_stats_def)
next
  assume b: "routing tt = Some (m0 # ms) \<and> (\<not> use_parallel \<or> ms = [])
      \<and> (\<forall>i<length (m0 # ms). \<exists>e. call_model lib api tokens tt i ((m0 # ms) ! i) = Inl e)"
  then have fails: "\<forall>i<length (m0 # ms). \<exists>e. call_model lib api tokens tt (0 + i) ((m0 # ms) ! i) = Inl e"
    by simp
  have loop: "fallback_loop (call_model lib api tokens tt) 0 (m0 # ms) = (None, m0 # ms)"
    using fallback_loop_all_fail [of "m0 # ms" "call_model lib api tokens tt" 0] fails by blast
  have m: "m0 # ms = (case routing tt of None \<Rightarrow> [CLAUDE_SONNET] | Some ms \<Rightarrow> ms)"
    using b by simp
  have np: "\<not> (use_parallel \<and> length (m0 # ms) > 1)" using b by auto
  have "process_task routing lib api tokens order tt use_parallel =
     (case fallback_loop (call_model lib api tokens tt) 0 (m0 # ms) of
        (Some rsp, tried) \<Rightarrow> Some (Inr rsp, tried)
      | (None, tried) \<Rightarrow>
          Some (case loop_exhausted tt (m0 # ms) of
                  Inr rsp \<Rightarrow> Inr rsp
                | Inl e \<Rightarrow> except_handler tt e, tried))"
    using m np by (rule process_task_sequential)
  with loop show "process_task routing lib api tokens order tt use_parallel
          = Some (case tt of
                    Member t \<Rightarrow> Inr (all_models_failed t m0)
                  | Plain s \<Rightarrow> Inl AttributeError, m0 # ms)"
    by (cases tt) (simp_all add: loop_exhausted_def except_handler_def)
qed

text \<open>
  With the code models all failing, each with its own name as the message, the error of
  \<^const>\<open>generate\<close> carries the message of the last one and each model has one error
  counted; with the routing of action extraction and every provider timing out,
  \<^const>\<open>process_task\<close> returns its failure response.
\<close>

theorem all_candidates_failed_example:
  "generate MODEL_REGISTRY all_down init_ledger ''hello'' (Member CODE) False False None
     = (Inl (AllModelsFailed (Member CODE) (Some (ProviderError ''gpt-4''))),
        \<lparr>request_count = [],
         error_count = [(''anthropic/claude-3-5-sonnet-20241022'', 1), (''openai/gpt-4'', 1)],
         total_cost = 0\<rparr>,
        the (MODEL_REGISTRY (Member CODE)))
   \<and> total_errors (get_stats init_ledger) = 0
   \<and> model_routing (Member ACTION_EXTRACTION) = Some [CLAUDE_SONNET, GPT4_TURBO]
   \<and> process_task model_routing sample_lib api_down 7 [] (Member ACTION_EXTRACTION) False
     = Some (Inr (all_models_failed ACTION_EXTRACTION CLAUDE_SONNET), [CLAUDE_SONNET, GPT4_TURBO])"
proof -
  have reg: "MODEL_REGISTRY (Member CODE) = MODEL_REGISTRY_entries CODE"
    by (simp add: MODEL_REGISTRY_def enum_dict_get_def)
  have sel: "select_models MODEL_REGISTRY (Member CODE) False False None = the (MODEL_REGISTRY (Member CODE))"
    by (simp add: reg select_models_def sort_reverse_def balance_def)
  have ne: "the (MODEL_REGISTRY (Member CODE)) \<noteq> []" by (simp add: reg)
  have f: "\<forall>i<length (the (MODEL_REGISTRY (Member CODE))).
             \<exists>e. all_down i (the (MODEL_REGISTRY (Member CODE)) ! i) ''hello'' = Inl e"
    by (simp add: all_down_def)
  have r: "model_routing (Member ACTION_EXTRACTION) = Some (CLAUDE_SONNET # [GPT4_TURBO])"
    using routing_action by simp
  have f2: "\<forall>i<length (CLAUDE_SONNET # [GPT4_TURBO]).
      \<exists>e. call_model sample_lib api_down 7 (Member ACTION_EXTRACTION) i ((CLAUDE_SONNET # [GPT4_TURBO]) ! i) = Inl e"
    by (simp add: call_model_def api_down_def)
  note inst = all_candidates_failed
    [of MODEL_REGISTRY "Member CODE" False False None "the (MODEL_REGISTRY (Member CODE))" all_down "''hello''"
        init_ledger model_routing "Member ACTION_EXTRACTION" CLAUDE_SONNET "[GPT4_TURBO]" False
        sample_lib api_down 7 "[]"]
  from inst sel ne f r f2
  have seq: "process_task model_routing sample_lib api_down 7 [] (Member ACTION_EXTRACTION) False
     = Some (Inr (all_models_failed ACTION_EXTRACTION CLAUDE_SONNET), [CLAUDE_SONNET, GPT4_TURBO])"
    by simp
  have gen: "generate MODEL_REGISTRY all_down init_ledger ''hello'' (Member CODE) False False None
     = (Inl (AllModelsFailed (Member CODE) (Some (ProviderError ''gpt-4''))),
        \<lparr>request_count = [],
         error_count = [(''anthropic/claude-3-5-sonnet-20241022'', 1), (''openai/gpt-4'', 1)],
         total_cost = 0\<rparr>,
        the (MODEL_REGISTRY (Member CODE)))"
    by (simp add: reg generate_def select_models_def sort_reverse_def balance_def all_down_def
        init_ledger_def track_error_def model_key_def dict_get_def)
  show ?thesis using seq gen routing_action by (simp add: get_stats_def init_ledger_def sum_values_def)
qed

text \<open>
  The claim as stated fails for \<^const>\<open>process_task\<close>: when both models time out it
  returns a response, whose error text does not mention the timeout.
\<close>

theorem process_task_returns_failure_response:
  "process_task model_routing sample_lib api_down 7 [] (Member ACTION_EXTRACTION) False
     = Some (Inr \<lparr>success = False, model = ''claude-3-5-sonnet-20241022'',
              task_type = ''action_extraction'', result = None, confidence = Fin 0,
              tokens_used = 0, error = Some (Message ''All models failed'')\<rparr>,
             [CLAUDE_SONNET, GPT4_TURBO])"
  by (simp add: process_task_def try_body_def call_model_def api_down_def all_models_failed_def
        loop_exhausted_def model_routing_def enum_dict_get_def)

section \<open>Unknown categories\<close>

text \<open>
  Claim C4, as amended. For a model type with no registry entry, \<^const>\<open>generate\<close> raises
  its no-available-models error, with the ledger unchanged and no provider called. For a
  task type with no entry in the routing table, \<^const>\<open>process_task\<close> does not fail before
  calling a provider: it behaves as if the entry were the default list with Claude Sonnet
  alone, and exactly one provider call, to Claude Sonnet, is issued.
\<close>

theorem unknown_category:
  "(registry model_type = None
      \<longrightarrow> generate registry call L prompt model_type prefer_speed prefer_quality max_cost
            = (Inl (NoAvailableModels model_type), L, []))
   \<and> (routing tt = None
      \<longrightarrow> process_task routing lib api tokens order tt use_parallel
            = process_task (routing (tt \<mapsto> [CLAUDE_SONNET])) lib api tokens order tt use_parallel
         \<and> (\<exists>res. process_task routing lib api tokens order tt use_parallel
                  = Some (res, [CLAUDE_SONNET])))"
proof (intro conjI impI)
  assume "registry model_type = None"
  then show "generate registry call L prompt model_type prefer_speed prefer_quality max_cost
            = (Inl (NoAvailableModels model_type), L, [])"
    by (simp add: generate_def select_models_def)
next
  assume "routing tt = None"
  then show "process_task routing lib api tokens order tt use_parallel
            = process_task (routing (tt \<mapsto> [CLAUDE_SONNET])) lib api tokens order tt use_parallel"
    by (simp add: process_task_def)
next
  assume n: "routing tt = None"
  have m: "[CLAUDE_SONNET] = (case routing tt of None \<Rightarrow> [CLAUDE_SONNET] | Some ms \<Rightarrow> ms)"
    using n by simp
  have np: "\<not> (use_parallel \<and> length [CLAUDE_SONNET] > 1)" by simp
  have seq: "process_task routing lib api tokens order tt use_parallel =
     (case fallback_loop (call_model lib api tokens tt) 0 [CLAUDE_SONNET] of
        (Some rsp, tried) \<Rightarrow> Some (Inr rsp, tried)
      | (None, tried) \<Rightarrow>
          Some (case loop_exhausted tt [CLAUDE_SONNET] of
                  Inr rsp \<Rightarrow> Inr rsp
                | Inl e \<Rightarrow> except_handler tt e, tried))"
    using m np by (rule process_task_sequential)
  have "\<exists>ro. fallback_loop (call_model lib api tokens tt) 0 [CLAUDE_SONNET] = (ro, [CLAUDE_SONNET])"
    by (cases "call_model lib api tokens tt 0 CLAUDE_SONNET") auto
  then obtain ro where "fallback_loop (call_model lib api tokens tt) 0 [CLAUDE_SONNET] = (ro, [CLAUDE_SONNET])"
    by blast
  with seq show "\<exists>res. process_task routing lib api tokens order tt use_parallel = Some (res, [CLAUDE_SONNET])"
    by (cases ro) simp_all
qed

text \<open>
  The tables of the program have an entry for every member of their enumeration, so the
  keys without an entry are the arguments that are no member: the model type
  \<^verbatim>\<open>"translation"\<close> makes \<^const>\<open>generate\<close> raise at once, and the task type
  \<^verbatim>\<open>"code_generation"\<close> is routed to Claude Sonnet.
\<close>

theorem unknown_category_example:
  "MODEL_REGISTRY (Plain ''translation'') = None
   \<and> generate MODEL_REGISTRY all_down init_ledger ''hello'' (Plain ''translation'') False False None
       = (Inl (NoAvailableModels (Plain ''translation'')), init_ledger, [])
   \<and> model_routing (Plain ''code_generation'') = None
   \<and> process_task model_routing sample_lib api_empty_object 7 [] (Plain ''code_generation'') False
       = process_task (model_routing (Plain ''code_generation'' \<mapsto> [CLAUDE_SONNET]))
           sample_lib api_empty_object 7 [] (Plain ''code_generation'') False
   \<and> (\<exists>res. process_task model_routing sample_lib api_empty_object 7 [] (Plain ''code_generation'') False
            = Some (res, [CLAUDE_SONNET]))"
proof -
  have h1: "MODEL_REGISTRY (Plain ''translation'') = None"
    by (simp add: MODEL_REGISTRY_def enum_dict_get_def ModelType_members_def)
  from unknown_category
    [of MODEL_REGISTRY "Plain ''translation''" all_down init_ledger "''hello''" False False None
        model_routing "Plain ''code_generation''" sample_lib api_empty_object 7 "[]" False]
    h1 routing_unknown
  show ?thesis by blast
qed

text \<open>
  The claim as stated fails: for the task type \<^verbatim>\<open>"code_generation"\<close>, which has no entry
  in the routing table of the program, Claude Sonnet is called and answers, and only
  then does the request end, with the \<^verbatim>\<open>AttributeError\<close> of \<^verbatim>\<open>task_type.value\<close>.
\<close>

theorem unknown_task_routed_to_default:
  "model_routing (Plain ''code_generation'') = None
   \<and> api_empty_object 0 CLAUDE_SONNET = Inr ''{}''
   \<and> process_task model_routing sample_lib api_empty_object 7 [] (Plain ''code_generation'') False
     = Some (Inl AttributeError, [CLAUDE_SONNET])"
  by (simp add: process_task_def try_body_def example_simps api_empty_object_def)

section \<open>Confidence of an outcome\<close>

lemma calculate_confidence_cases:
  assumes "calculate_confidence lib res = Inr c"
  shows "\<exists>kvs. res = JObject kvs
       \<and> (\<forall>v. map_of kvs ''confidence'' = Some v \<longrightarrow> py_float lib v = Inr c)
       \<and> (\<forall>os v. map_of kvs ''confidence'' = None
                 \<and> map_of kvs ''overall_sentiment'' = Some (JObject os)
                 \<and> map_of os ''confidence'' = Some v
               \<longrightarrow> py_float lib v = Inr c)
       \<and> (map_of kvs ''confidence'' = None
           \<and> (\<forall>os. map_of kvs ''overall_sentiment'' = Some (JObject os)
                    \<longrightarrow> map_of os ''confidence'' = None)
          \<longrightarrow> c = (if py_truthy (case map_of kvs ''parsed'' of None \<Rightarrow> JBool True | Some p \<Rightarrow> p)
                   then Fin 0.85 else Fin 0.5))"
proof (cases res)
  case (JObject kvs)
  show ?thesis
  proof (cases "map_of kvs ''confidence''")
    case (Some v)
    with assms JObject show ?thesis by (simp add: calculate_confidence_def)
  next
    case None
    note top = None
    show ?thesis
    proof (cases "map_of kvs ''overall_sentiment''")
      case None
      with assms JObject top show ?thesis
        by (simp add: calculate_confidence_def default_confidence_def split: if_splits)
    next
      case (Some os)
      show ?thesis
      proof (cases os)
        case (JObject okvs)
        with assms \<open>res = JObject kvs\<close> top Some show ?thesis
          by (cases "map_of okvs ''confidence''")
             (simp_all add: calculate_confidence_def default_confidence_def split: if_splits)
      next
        case (JArray xs)
        with assms \<open>res = JObject kvs\<close> top Some show ?thesis
          by (cases "JString ''confidence'' \<in> set xs")
             (simp_all add: calculate_confidence_def default_confidence_def split: if_splits)
      next
        case (JString s)
        with assms \<open>res = JObject kvs\<close> top Some show ?thesis
          by (cases "py_in ''confidence'' s")
             (simp_all add: calculate_confidence_def default_confidence_def split: if_splits)
      qed (use assms \<open>res = JObject kvs\<close> top Some in \<open>simp_all add: calculate_confidence_def\<close>)
    qed
  qed
qed (use assms in \<open>simp_all add: calculate_confidence_def default_confidence_def\<close>)

text \<open>
  Claim C7, as amended. Every response that \<^const>\<open>process_task\<close> returns is either a
  failure, with confidence \<open>0\<close> and no result, or a success whose result is a decoded
  dictionary, and then: if the dictionary has a top-level confidence entry, the confidence
  of the response is \<^verbatim>\<open>float\<close> of that entry; if it has none and the entry under
  \<^verbatim>\<open>overall_sentiment\<close> is a dictionary with a confidence entry, it is \<^verbatim>\<open>float\<close> of that
  one; and if neither entry exists it is \<open>0.85\<close>, or \<open>0.5\<close> when the dictionary has
  a falsy entry \<^verbatim>\<open>parsed\<close>. The explicit value is taken as it is, with no clamping.
\<close>

theorem confidence_of_outcome:
  assumes "process_task routing lib api tokens order tt use_parallel = Some (Inr r, called)"
  shows "(\<not> success r \<longrightarrow> confidence r = Fin 0 \<and> result r = None)
       \<and> (success r \<longrightarrow>
            (\<exists>kvs. result r = Some (JObject kvs)
               \<and> (\<forall>v. map_of kvs ''confidence'' = Some v
                      \<longrightarrow> py_float lib v = Inr (confidence r))
               \<and> (\<forall>os v. map_of kvs ''confidence'' = None
                         \<and> map_of kvs ''overall_sentiment'' = Some (JObject os)
                         \<and> map_of os ''confidence'' = Some v
                      \<longrightarrow> py_float lib v = Inr (confidence r))
               \<and> (map_of kvs ''confidence'' = None
                   \<and> (\<forall>os. map_of kvs ''overall_sentiment'' = Some (JObject os)
                            \<longrightarrow> map_of os ''confidence'' = None)
                  \<longrightarrow> confidence r
                      = (if py_truthy (case map_of kvs ''parsed'' of
                                         None \<Rightarrow> JBool True | Some p \<Rightarrow> p)
                         then Fin 0.85 else Fin 0.5))))"
proof -
  from process_task_response [OF assms] consider
    t e where "r = orchestration_error t e" | t m where "r = all_models_failed t m"
    | n m where "call_model lib api tokens tt n m = Inr r" by blast
  then show ?thesis
  proof cases
    case 1
    then show ?thesis by (simp add: orchestration_error_def)
  next
    case 2
    then show ?thesis by (simp add: all_models_failed_def)
  next
    case 3
    from call_model_result [OF 3] obtain res where
      s: "success r" and res: "result r = Some res"
      and cc: "calculate_confidence lib res = Inr (confidence r)" by blast
    from calculate_confidence_cases [OF cc] obtain kvs where
      k: "res = JObject kvs" and
      r1: "\<forall>v. map_of kvs ''confidence'' = Some v \<longrightarrow> py_float lib v = Inr (confidence r)"
      and r2: "\<forall>os v. map_of kvs ''confidence'' = None
                 \<and> map_of kvs ''overall_sentiment'' = Some (JObject os)
                 \<and> map_of os ''confidence'' = Some v
               \<longrightarrow> py_float lib v = Inr (confidence r)"
      and r3: "map_of kvs ''confidence'' = None
           \<and> (\<forall>os. map_of kvs ''overall_sentiment'' = Some (JObject os)
                    \<longrightarrow> map_of os ''confidence'' = None)
          \<longrightarrow> confidence r = (if py_truthy (case map_of kvs ''parsed'' of None \<Rightarrow> JBool True | Some p \<Rightarrow> p)
                   then Fin 0.85 else Fin 0.5)"
      by blast
    have "\<exists>kvs'. result r = Some (JObject kvs')
               \<and> (\<forall>v. map_of kvs' ''confidence'' = Some v
                      \<longrightarrow> py_float lib v = Inr (confidence r))
               \<and> (\<forall>os v. map_of kvs' ''confidence'' = None
                         \<and> map_of kvs' ''overall_sentiment'' = Some (JObject os)
                         \<and> map_of os ''confidence'' = Some v
                      \<longrightarrow> py_float lib v = Inr (confidence r))
               \<and> (map_of kvs' ''confidence'' = None
                   \<and> (\<forall>os. map_of kvs' ''overall_sentiment'' = Some (JObject os)
                            \<longrightarrow> map_of os ''confidence'' = None)
                  \<longrightarrow> confidence r
                      = (if py_truthy (case map_of kvs' ''parsed'' of
                                         None \<Rightarrow> JBool True | Some p \<Rightarrow> p)
                         then Fin 0.85 else Fin 0.5))"
      apply (rule exI [of _ kvs])
      apply (intro conjI)
         apply (simp add: res k)
        apply (rule r1)
       apply (rule r2)
      apply (rule r3)
      done
    with s show ?thesis by simp
  qed
qed

text \<open>
  With the routing of transcription (GPT-4 Turbo alone): a top-level confidence of 0.9
  and a confidence of 0.7 under \<^verbatim>\<open>overall_sentiment\<close> are returned as they are, an
  empty object gets 0.85, and a timeout gives the failure response with confidence 0.
\<close>

theorem confidence_of_outcome_example:
  "process_task model_routing sample_lib api_tie 7 [] (Member TRANSCRIPTION) False
     = Some (Inr \<lparr>success = True, model = ''gpt-4-turbo-preview'', task_type = ''transcription'',
                  result = Some (JObject [(''confidence'', JFloat (Fin 0.9))]),
                  confidence = Fin 0.9, tokens_used = 7, error = None\<rparr>, [GPT4_TURBO])
   \<and> py_float sample_lib (JFloat (Fin 0.9)) = Inr (Fin 0.9)
   \<and> process_task model_routing sample_lib api_sentiment 7 [] (Member TRANSCRIPTION) False
     = Some (Inr \<lparr>success = True, model = ''gpt-4-turbo-preview'', task_type = ''transcription'',
                  result = Some (JObject [(''overall_sentiment'',
                                          JObject [(''confidence'', JFloat (Fin 0.7))])]),
                  confidence = Fin 0.7, tokens_used = 7, error = None\<rparr>, [GPT4_TURBO])
   \<and> py_float sample_lib (JFloat (Fin 0.7)) = Inr (Fin 0.7)
   \<and> process_task model_routing sample_lib api_empty_object 7 [] (Member TRANSCRIPTION) False
     = Some (Inr \<lparr>success = True, model = ''gpt-4-turbo-preview'', task_type = ''transcription'',
                  result = Some (JObject []), confidence = Fin 0.85,
                  tokens_used = 7, error = None\<rparr>, [GPT4_TURBO])
   \<and> process_task model_routing sample_lib api_down 7 [] (Member TRANSCRIPTION) False
     = Some (Inr \<lparr>success = False, model = ''gpt-4-turbo-preview'', task_type = ''transcription'',
                  result = None, confidence = Fin 0, tokens_used = 0,
                  error = Some (Message ''All models failed'')\<rparr>, [GPT4_TURBO])"
proof -
  have h1: "process_task model_routing sample_lib api_tie 7 [] (Member TRANSCRIPTION) False
     = Some (Inr \<lparr>success = True, model = ''gpt-4-turbo-preview'', task_type = ''transcription'',
                  result = Some (JObject [(''confidence'', JFloat (Fin 0.9))]),
                  confidence = Fin 0.9, tokens_used = 7, error = None\<rparr>, [GPT4_TURBO])"
    by (simp add: process_task_def try_body_def example_simps api_tie_def)
  have h2: "process_task model_routing sample_lib api_sentiment 7 [] (Member TRANSCRIPTION) False
     = Some (Inr \<lparr>success = True, model = ''gpt-4-turbo-preview'', task_type = ''transcription'',
                  result = Some (JObject [(''overall_sentiment'',
                                          JObject [(''confidence'', JFloat (Fin 0.7))])]),
                  confidence = Fin 0.7, tokens_used = 7, error = None\<rparr>, [GPT4_TURBO])"
    by (simp add: process_task_def try_body_def example_simps api_sentiment_def)
  have h3: "process_task model_routing sample_lib api_empty_object 7 [] (Member TRANSCRIPTION) False
     = Some (Inr \<lparr>success = True, model = ''gpt-4-turbo-preview'', task_type = ''transcription'',
                  result = Some (JObject []), confidence = Fin 0.85,
                  tokens_used = 7, error = None\<rparr>, [GPT4_TURBO])"
    by (simp add: process_task_def try_body_def example_simps api_empty_object_def)
  have h4: "process_task model_routing sample_lib api_down 7 [] (Member TRANSCRIPTION) False
     = Some (Inr \<lparr>success = False, model = ''gpt-4-turbo-preview'', task_type = ''transcription'',
                  result = None, confidence = Fin 0, tokens_used = 0,
                  error = Some (Message ''All models failed'')\<rparr>, [GPT4_TURBO])"
    by (simp add: process_task_def try_body_def example_simps api_down_def)
  from confidence_of_outcome [OF h1] confidence_of_outcome [OF h2]
       confidence_of_outcome [OF h3] confidence_of_outcome [OF h4] h1 h2 h3 h4
  show ?thesis by simp
qed

text \<open>
  The claim as stated fails: an explicit confidence of 5 is returned as 5.
\<close>

theorem confidence_not_clamped:
  "process_task model_routing sample_lib api_confident 7 [] (Member TRANSCRIPTION) False
     = Some (Inr \<lparr>success = True, model = ''gpt-4-turbo-preview'', task_type = ''transcription'',
                  result = Some (JObject [(''confidence'', JInt 5)]), confidence = Fin 5,
                  tokens_used = 7, error = None\<rparr>, [GPT4_TURBO])
   \<and> \<not> (5 :: real) \<le> 1"
  by (simp add: process_task_def try_body_def example_simps api_confident_def)

section \<open>Response interpretation\<close>

subsection \<open>Searching and slicing\<close>

lemma find_aux_lower: "find_aux sub s i = - 1 \<or> int i \<le> find_aux sub s i"
proof (induction s arbitrary: i)
  case Nil
  then show ?case by simp
next
  case (Cons c cs)
  from Cons [of "Suc i"] show ?case by auto
qed

lemma find_aux_shift:
  "find_aux sub s i = (if find_aux sub s 0 = - 1 then - 1 else find_aux sub s 0 + int i)"
proof (induction s arbitrary: i)
  case Nil
  then show ?case by simp
next
  case (Cons c cs)
  show ?case
  proof (cases "prefix sub (c # cs)")
    case True
    then show ?thesis by simp
  next
    case False
    have ge: "find_aux sub cs (Suc 0) = - 1 \<or> 1 \<le> find_aux sub cs (Suc 0)"
      using find_aux_lower [of sub cs "Suc 0"] by simp
    from False have "find_aux sub (c # cs) i = find_aux sub cs (Suc i)" by simp
    also have "\<dots> = (if find_aux sub cs 0 = - 1 then - 1 else find_aux sub cs 0 + int (Suc i))"
      by (rule Cons)
    finally have a: "find_aux sub (c # cs) i
        = (if find_aux sub cs 0 = - 1 then - 1 else find_aux sub cs 0 + int (Suc i))" .
    from False have "find_aux sub (c # cs) 0 = find_aux sub cs (Suc 0)" by simp
    also have "\<dots> = (if find_aux sub cs 0 = - 1 then - 1 else find_aux sub cs 0 + int (Suc 0))"
      by (rule Cons)
    finally have b: "find_aux sub (c # cs) 0
        = (if find_aux sub cs 0 = - 1 then - 1 else find_aux sub cs 0 + int (Suc 0))" .
    have lo: "find_aux sub cs 0 = - 1 \<or> 0 \<le> find_aux sub cs 0"
      using find_aux_lower [of sub cs 0] by simp
    show ?thesis unfolding a b using lo by auto
  qed
qed

lemma find_aux_first:
  "find_aux sub s 0 = int k \<longleftrightarrow>
     k \<le> length s \<and> prefix sub (drop k s) \<and> (\<forall>j<k. \<not> prefix sub (drop j s))"
proof (induction s arbitrary: k)
  case Nil
  then show ?case by auto
next
  case (Cons c cs)
  show ?case
  proof (cases "prefix sub (c # cs)")
    case True
    then have "find_aux sub (c # cs) 0 = 0" by simp
    moreover have "(k \<le> length (c # cs) \<and> prefix sub (drop k (c # cs))
        \<and> (\<forall>j<k. \<not> prefix sub (drop j (c # cs)))) \<longleftrightarrow> k = 0"
    proof
      assume a: "k \<le> length (c # cs) \<and> prefix sub (drop k (c # cs))
        \<and> (\<forall>j<k. \<not> prefix sub (drop j (c # cs)))"
      show "k = 0"
      proof (rule ccontr)
        assume "k \<noteq> 0"
        then have "0 < k" by simp
        with a have "\<not> prefix sub (drop 0 (c # cs))" by blast
        with True show False by simp
      qed
    next
      assume "k = 0"
      with True show "k \<le> length (c # cs) \<and> prefix sub (drop k (c # cs))
        \<and> (\<forall>j<k. \<not> prefix sub (drop j (c # cs)))" by simp
    qed
    ultimately show ?thesis by auto
  next
    case False
    have sh: "find_aux sub (c # cs) 0
        = (if find_aux sub cs 0 = - 1 then - 1 else find_aux sub cs 0 + 1)"
      using False find_aux_shift [of sub cs "Suc 0"] by simp
    have lo: "find_aux sub cs 0 = - 1 \<or> 0 \<le> find_aux sub cs 0"
      using find_aux_lower [of sub cs 0] by simp
    show ?thesis
    proof (cases k)
      case 0
      with False sh lo show ?thesis by auto
    next
      case (Suc k')
      have "find_aux sub (c # cs) 0 = int (Suc k') \<longleftrightarrow> find_aux sub cs 0 = int k'"
        using sh lo by auto
      also have "\<dots> \<longleftrightarrow> k' \<le> length cs \<and> prefix sub (drop k' cs)
          \<and> (\<forall>j<k'. \<not> prefix sub (drop j cs))"
        by (rule Cons)
      also have "\<dots> \<longleftrightarrow> Suc k' \<le> length (c # cs) \<and> prefix sub (drop (Suc k') (c # cs))
          \<and> (\<forall>j<Suc k'. \<not> prefix sub (drop j (c # cs)))"
      proof -
        have "(\<forall>j<Suc k'. \<not> prefix sub (drop j (c # cs)))
            \<longleftrightarrow> (\<forall>j<k'. \<not> prefix sub (drop j cs))"
        proof
          assume a: "\<forall>j<Suc k'. \<not> prefix sub (drop j (c # cs))"
          show "\<forall>j<k'. \<not> prefix sub (drop j cs)"
          proof (intro allI impI)
            fix j assume "j < k'"
            then have "Suc j < Suc k'" by simp
            with a have "\<not> prefix sub (drop (Suc j) (c # cs))" by blast
            then show "\<not> prefix sub (drop j cs)" by simp
          qed
        next
          assume a: "\<forall>j<k'. \<not> prefix sub (drop j cs)"
          show "\<forall>j<Suc k'. \<not> prefix sub (drop j (c # cs))"
          proof (intro allI impI)
            fix j assume j: "j < Suc k'"
            show "\<not> prefix sub (drop j (c # cs))"
            proof (cases j)
              case 0
              with False show ?thesis by simp
            next
              case (Suc j')
              with j a show ?thesis by simp
            qed
          qed
        qed
        then show ?thesis by simp
      qed
      finally show ?thesis using Suc by simp
    qed
  qed
qed

lemma find_aux_weaken:
  assumes "prefix sub' sub" "find_aux sub s i \<noteq> - 1"
  shows "find_aux sub' s i \<noteq> - 1"
  using assms(2)
proof (induction s arbitrary: i)
  case Nil
  with assms(1) show ?case by (auto split: if_splits)
next
  case (Cons c cs)
  show ?case
  proof (cases "prefix sub (c # cs)")
    case True
    with assms(1) have "prefix sub' (c # cs)" by (rule prefix_order.trans)
    then show ?thesis by simp
  next
    case False
    with Cons.prems have "find_aux sub cs (Suc i) \<noteq> - 1" by simp
    then have "find_aux sub' cs (Suc i) \<noteq> - 1" by (rule Cons.IH)
    then show ?thesis by simp
  qed
qed

lemma py_find_0: "py_find s sub 0 = find_aux sub s 0"
  by (simp add: py_find_def)

lemma py_find_from:
  "py_find (pre @ rest) sub (int (length pre))
     = (if py_find rest sub 0 = - 1 then - 1 else py_find rest sub 0 + int (length pre))"
  using find_aux_shift [of sub rest "length pre"] by (simp add: py_find_def)

lemma py_slice_middle:
  "py_slice (pre @ body @ post) (int (length pre)) (int (length pre) + int (length body)) = body"
  by (simp add: py_slice_def Let_def min_def)

lemma py_slice_unclosed:
  "py_slice (pre @ rest) (int (length pre)) (- 1) = butlast rest"
proof -
  have n: "nat (int (length rest) - 1) = length rest - 1" by arith
  show ?thesis
    by (cases "pre @ rest = []")
       (auto simp: py_slice_def Let_def butlast_conv_take min_def max_def n simp del: One_nat_def)
qed

text \<open>The search finds the first occurrence, and the membership test holds when there is
  one.\<close>

lemma py_find_first:
  "py_find s sub 0 = int k \<longleftrightarrow>
     k \<le> length s \<and> prefix sub (drop k s) \<and> (\<forall>j<k. \<not> prefix sub (drop j s))"
  by (simp only: py_find_0 find_aux_first)

lemma py_in_iff: "py_in sub s \<longleftrightarrow> (\<exists>k\<le>length s. prefix sub (drop k s))"
proof
  assume "py_in sub s"
  then have ne: "find_aux sub s 0 \<noteq> - 1" by (simp add: py_in_def py_find_0)
  with find_aux_lower [of sub s 0] have "0 \<le> find_aux sub s 0" by simp
  then obtain k where "find_aux sub s 0 = int k" using nonneg_int_cases by blast
  then show "\<exists>k\<le>length s. prefix sub (drop k s)" by (auto simp: find_aux_first)
next
  assume "\<exists>k\<le>length s. prefix sub (drop k s)"
  then have "\<exists>k. (k \<le> length s \<and> prefix sub (drop k s))
               \<and> (\<forall>j<k. \<not> (j \<le> length s \<and> prefix sub (drop j s)))"
    by (simp only: exists_least_iff [symmetric])
  then obtain k where k: "k \<le> length s" "prefix sub (drop k s)"
    and least: "\<forall>j<k. \<not> (j \<le> length s \<and> prefix sub (drop j s))" by blast
  have "\<forall>j<k. \<not> prefix sub (drop j s)"
  proof (intro allI impI)
    fix j assume "j < k"
    with k(1) have "j \<le> length s" by simp
    with least \<open>j < k\<close> show "\<not> prefix sub (drop j s)" by blast
  qed
  with k have "find_aux sub s 0 = int k" by (simp add: find_aux_first)
  then show "py_in sub s" by (simp add: py_in_def py_find_0)
qed

subsection \<open>The text that is decoded\<close>

lemma fenced_block:
  assumes "s = pre @ M @ body @ F @ post" "py_find s M 0 = int (length pre)"
    and "py_find (body @ F @ post) F 0 = int (length body)"
  shows "py_slice s (py_find s M 0 + int (length M))
           (py_find s F (py_find s M 0 + int (length M))) = body"
proof -
  have s: "s = (pre @ M) @ body @ (F @ post)" using assms(1) by simp
  have start: "py_find s M 0 + int (length M) = int (length (pre @ M))"
    using assms(2) by simp
  have "py_find ((pre @ M) @ (body @ F @ post)) F (int (length (pre @ M)))
          = int (length body) + int (length (pre @ M))"
    using assms(3) by (simp only: py_find_from) simp
  then have stop: "py_find s F (int (length (pre @ M)))
          = int (length (pre @ M)) + int (length body)"
    using assms(1) by simp
  have "py_slice ((pre @ M) @ body @ (F @ post)) (int (length (pre @ M)))
          (int (length (pre @ M)) + int (length body)) = body"
    by (rule py_slice_middle)
  then show ?thesis unfolding start stop using s by simp
qed

lemma unclosed_block:
  assumes "s = pre @ M @ rest" "py_find s M 0 = int (length pre)" "py_find rest F 0 = - 1"
  shows "py_slice s (py_find s M 0 + int (length M))
           (py_find s F (py_find s M 0 + int (length M))) = butlast rest"
proof -
  have s: "s = (pre @ M) @ rest" using assms(1) by simp
  have start: "py_find s M 0 + int (length M) = int (length (pre @ M))"
    using assms(2) by simp
  have "py_find ((pre @ M) @ rest) F (int (length (pre @ M))) = - 1"
    using assms(3) by (simp only: py_find_from) simp
  then have stop: "py_find s F (int (length (pre @ M))) = - 1"
    using s by simp
  have "py_slice ((pre @ M) @ rest) (int (length (pre @ M))) (- 1) = butlast rest"
    by (rule py_slice_unclosed)
  then show ?thesis unfolding start stop using s by simp
qed

lemma not_in_fence_json: "\<not> py_in ''```'' s \<Longrightarrow> \<not> py_in ''```json'' s"
proof -
  have p: "prefix ''```'' ''```json''" by simp
  show "\<not> py_in ''```'' s \<Longrightarrow> \<not> py_in ''```json'' s"
    using find_aux_weaken [OF p, of s 0] by (auto simp: py_in_def py_find_0)
qed

lemma json_str_tagged:
  assumes "s = pre @ ''```json'' @ body @ ''```'' @ post"
    and "py_find s ''```json'' 0 = int (length pre)"
    and "py_find (body @ ''```'' @ post) ''```'' 0 = int (length body)"
  shows "json_str s = py_strip body"
proof -
  have "py_in ''```json'' s" using assms(2) by (simp add: py_in_def)
  moreover have "py_slice s (py_find s ''```json'' 0 + int (length ''```json''))
           (py_find s ''```'' (py_find s ''```json'' 0 + int (length ''```json''))) = body"
    using assms by (rule fenced_block)
  ultimately show ?thesis by (simp add: json_str_def Let_def)
qed

lemma json_str_untagged:
  assumes "\<not> py_in ''```json'' s" and "s = pre @ ''```'' @ body @ ''```'' @ post"
    and "py_find s ''```'' 0 = int (length pre)"
    and "py_find (body @ ''```'' @ post) ''```'' 0 = int (length body)"
  shows "json_str s = py_strip body"
proof -
  have "py_in ''```'' s" using assms(3) by (simp add: py_in_def)
  moreover have "py_slice s (py_find s ''```'' 0 + int (length ''```''))
           (py_find s ''```'' (py_find s ''```'' 0 + int (length ''```''))) = body"
    using assms(2-4) by (rule fenced_block)
  ultimately show ?thesis using assms(1) by (simp add: json_str_def Let_def)
qed

lemma json_str_plain: "\<not> py_in ''```'' s \<Longrightarrow> json_str s = py_strip s"
  using not_in_fence_json [of s] by (simp add: json_str_def)

lemma json_str_tagged_unclosed:
  assumes "s = pre @ ''```json'' @ rest" and "py_find s ''```json'' 0 = int (length pre)"
    and "\<not> py_in ''```'' rest"
  shows "json_str s = py_strip (butlast rest)"
proof -
  have "py_in ''```json'' s" using assms(2) by (simp add: py_in_def)
  moreover have "py_find rest ''```'' 0 = - 1" using assms(3) by (simp add: py_in_def)
  with assms(1,2) have "py_slice s (py_find s ''```json'' 0 + int (length ''```json''))
           (py_find s ''```'' (py_find s ''```json'' 0 + int (length ''```json''))) = butlast rest"
    by (rule unclosed_block)
  ultimately show ?thesis by (simp add: json_str_def Let_def)
qed

lemma json_str_untagged_unclosed:
  assumes "\<not> py_in ''```json'' s" and "s = pre @ ''```'' @ rest"
    and "py_find s ''```'' 0 = int (length pre)" and "\<not> py_in ''```'' rest"
  shows "json_str s = py_strip (butlast rest)"
proof -
  have "py_in ''```'' s" using assms(3) by (simp add: py_in_def)
  moreover have "py_find rest ''```'' 0 = - 1" using assms(4) by (simp add: py_in_def)
  with assms(2,3) have "py_slice s (py_find s ''```'' 0 + int (length ''```''))
           (py_find s ''```'' (py_find s ''```'' 0 + int (length ''```''))) = butlast rest"
    by (rule unclosed_block)
  ultimately show ?thesis using assms(1) by (simp add: json_str_def Let_def)
qed

lemma find_not_json: "py_find ''not json at all'' ''```'' 0 = - 1"
  by (simp add: py_find_def)

lemma find_example_fenced:
  "py_find example_fenced ''```json'' 0 = 19"
  "py_find ([CHR 0x0A] @ ''{\"confidence\": 0.92, \"x\": 1}'' @ [CHR 0x0A] @ ''```'' @ []) ''```'' 0 = 30"
  by (simp_all add: py_find_def example_fenced_def)

lemma degraded_confidence:
  "calculate_confidence lib (JObject [(''raw_response'', JString s), (''parsed'', JBool False)])
     = Inr (Fin 0.5)"
  by (simp add: calculate_confidence_def default_confidence_def)

lemma parse_response_degraded:
  "json_loads lib (json_str s) = Inl JSONDecodeError
   \<Longrightarrow> parse_response lib s
         = Inr (JObject [(''raw_response'', JString s), (''parsed'', JBool False)])"
  by (simp add: parse_response_def)

text \<open>The two examples of the specification: the fenced document is decoded with
  confidence 0.92, and a text that is not JSON degrades to the raw response with
  confidence 0.5. A block whose fence is not closed loses its last character.\<close>

lemma json_str_example_fenced: "json_str example_fenced = ''{\"confidence\": 0.92, \"x\": 1}''"
proof -
  let ?doc = "''{\"confidence\": 0.92, \"x\": 1}''"
  have e: "example_fenced = (''Sure, here you go:'' @ [CHR 0x0A]) @ ''```json''
             @ ([CHR 0x0A] @ ?doc @ [CHR 0x0A]) @ ''```'' @ []"
    by (simp add: example_fenced_def)
  have l1: "py_find example_fenced ''```json'' 0 = int (length (''Sure, here you go:'' @ [CHR 0x0A]))"
    by (simp add: find_example_fenced)
  have l2: "py_find (([CHR 0x0A] @ ?doc @ [CHR 0x0A]) @ ''```'' @ []) ''```'' 0
              = int (length ([CHR 0x0A] @ ?doc @ [CHR 0x0A]))"
    using find_example_fenced(2) by simp
  from e l1 l2 have "json_str example_fenced = py_strip ([CHR 0x0A] @ ?doc @ [CHR 0x0A])"
    by (rule json_str_tagged)
  then show ?thesis by (simp add: py_strip_def is_space_def)
qed

lemma parse_response_examples:
  "parse_response sample_lib example_fenced
     = Inr (JObject [(''confidence'', JFloat (Fin 0.92)), (''x'', JInt 1)])
   \<and> calculate_confidence sample_lib (JObject [(''confidence'', JFloat (Fin 0.92)), (''x'', JInt 1)])
     = Inr (Fin 0.92)
   \<and> parse_response sample_lib ''not json at all''
     = Inr (JObject [(''raw_response'', JString ''not json at all''), (''parsed'', JBool False)])"
proof -
  have np: "\<not> py_in ''```'' ''not json at all''" by (simp add: py_in_def find_not_json)
  have js2: "json_str ''not json at all'' = ''not json at all''"
    using json_str_plain [OF np] by (simp add: py_strip_def is_space_def)
  have "json_loads sample_lib (json_str ''not json at all'') = Inl JSONDecodeError"
    by (simp add: js2 sample_lib_def sample_loads_def)
  then have a: "parse_response sample_lib ''not json at all''
     = Inr (JObject [(''raw_response'', JString ''not json at all''), (''parsed'', JBool False)])"
    by (rule parse_response_degraded)
  have b: "parse_response sample_lib example_fenced
     = Inr (JObject [(''confidence'', JFloat (Fin 0.92)), (''x'', JInt 1)])"
    by (simp add: parse_response_def json_str_example_fenced sample_lib_def sample_loads_def)
  have c: "calculate_confidence sample_lib (JObject [(''confidence'', JFloat (Fin 0.92)), (''x'', JInt 1)])
     = Inr (Fin 0.92)"
    by (simp add: calculate_confidence_def)
  from a b c show ?thesis by simp
qed

lemma parse_response_unclosed_example:
  "py_find ''```json{}x'' ''```'' 7 = - 1
   \<and> json_str ''```json{}x'' = ''{}''
   \<and> parse_response sample_lib ''```json{}x'' = Inr (JObject [])"
proof -
  have a: "''```json{}x'' = [] @ ''```json'' @ ''{}x''" by simp
  have b: "py_find ''```json{}x'' ''```json'' 0 = int (length ([] :: string))"
    by (simp add: py_find_def)
  have c: "\<not> py_in ''```'' ''{}x''" by (simp add: py_in_def py_find_def)
  from a b c have "json_str ''```json{}x'' = py_strip (butlast ''{}x'')"
    by (rule json_str_tagged_unclosed)
  then have js: "json_str ''```json{}x'' = ''{}''" by (simp add: py_strip_def is_space_def)
  have f: "py_find ''```json{}x'' ''```'' 7 = - 1" by (simp add: py_find_def)
  from js f show ?thesis
    by (simp add: parse_response_def sample_lib_def sample_loads_def)
qed

lemma no_fence_in_digits: "\<not> py_in ''```'' (replicate n (CHR ''1''))"
proof -
  have "\<not> prefix ''```'' (replicate m (CHR ''1''))" for m
    by (cases m) simp_all
  then show ?thesis by (simp add: py_in_iff)
qed

lemma json_str_digits: "json_str (replicate n (CHR ''1'')) = replicate n (CHR ''1'')"
  using json_str_plain [OF no_fence_in_digits, of n]
  by (simp add: py_strip_def is_space_def)

lemma sample_loads_digits: "sample_loads (replicate 4301 (CHR ''1'')) = Inl ValueError"
  by (simp add: sample_loads_def list_all_iff)

subsection \<open>Departures of the code\<close>

text \<open>
  Claim C6. A response that decodes without error and carries no confidence should get
  the default \<open>0.85\<close>; the comment in \<^verbatim>\<open>_calculate_confidence\<close> says that the default
  depends on whether parsing succeeded. The code reads the flag \<^verbatim>\<open>parsed\<close> from the
  decoded document itself, so the response \<^verbatim>\<open>{"parsed": false}\<close>, which decodes without
  error, gets \<open>0.5\<close>. A decoded dictionary whose entry \<^verbatim>\<open>overall_sentiment\<close> is
  \<^verbatim>\<open>null\<close> gets no confidence at all: the membership test on it raises \<^verbatim>\<open>TypeError\<close>.
\<close>

theorem parsed_entry_lowers_confidence:
  "parse_response sample_lib ''{\"parsed\": false}'' = Inr (JObject [(''parsed'', JBool False)])
   \<and> calculate_confidence lib (JObject [(''parsed'', JBool False)]) = Inr (Fin 0.5)
   \<and> calculate_confidence lib (JObject [(''overall_sentiment'', JNull)]) = Inl TypeError
   \<and> process_task model_routing sample_lib (\<lambda>n m. Inr ''{\"parsed\": false}'') 7 []
        (Member TRANSCRIPTION) False
     = Some (Inr \<lparr>success = True, model = ''gpt-4-turbo-preview'', task_type = ''transcription'',
                  result = Some (JObject [(''parsed'', JBool False)]), confidence = Fin 0.5,
                  tokens_used = 7, error = None\<rparr>, [GPT4_TURBO])"
  by (simp add: process_task_def try_body_def example_simps)

text \<open>
  Claim C10. \<^verbatim>\<open>_parse_response\<close> is meant to return a dictionary for every input. The
  code catches only \<^verbatim>\<open>JSONDecodeError\<close>: on a response of 4301 digits \<^verbatim>\<open>json.loads\<close> raises
  \<^verbatim>\<open>ValueError\<close> (the limit on the length of an integer literal), which leaves
  \<^verbatim>\<open>_parse_response\<close> and the call of the model; and the response \<^verbatim>\<open>[1, 2]\<close> is returned as
  a list, although the function is annotated to return a dictionary, and the call of the
  model then raises \<^verbatim>\<open>AttributeError\<close> when it computes the confidence.
\<close>

theorem parse_response_raises_value_error:
  "parse_response sample_lib (replicate 4301 (CHR ''1'')) = Inl ValueError
   \<and> call_model sample_lib (\<lambda>n m. Inr (replicate 4301 (CHR ''1''))) 7 (Member TRANSCRIPTION)
        0 GPT4_TURBO = Inl ValueError
   \<and> parse_response sample_lib ''[1, 2]'' = Inr (JArray [JInt 1, JInt 2])
   \<and> call_model sample_lib (\<lambda>n m. Inr ''[1, 2]'') 7 (Member TRANSCRIPTION) 0 GPT4_TURBO
     = Inl AttributeError"
proof -
  have a: "parse_response sample_lib (replicate 4301 (CHR ''1'')) = Inl ValueError"
    by (simp add: parse_response_def sample_lib_def json_str_digits sample_loads_digits)
  have b: "parse_response sample_lib ''[1, 2]'' = Inr (JArray [JInt 1, JInt 2])"
    by (simp add: parse_response_def sample_lib_def js5 sample_loads_def)
  have c: "call_model sample_lib (\<lambda>n m. Inr (replicate 4301 (CHR ''1''))) 7 (Member TRANSCRIPTION)
        0 GPT4_TURBO = Inl ValueError"
    by (simp add: call_model_def a)
  have d: "call_model sample_lib (\<lambda>n m. Inr ''[1, 2]'') 7 (Member TRANSCRIPTION) 0 GPT4_TURBO
     = Inl AttributeError"
    by (simp add: call_model_def b task_type_value_def calculate_confidence_def
          default_confidence_def)
  from a b c d show ?thesis by simp
qed

end
